theory Spec2Isabelle
  imports Complex_Main "HOL-Library.Word"
begin

unbundle bit_operations_syntax

section \<open>JavaScript strings\<close>

text \<open>
  A JavaScript string is a sequence of UTF-16 code units. A code unit is modelled by its
  number, so that titles with characters beyond Latin-1 are covered as well; the literals
  of the source are ASCII and are written \<open>js ''...''\<close>.
\<close>

type_synonym jsstring = "nat list"

definition js :: "string \<Rightarrow> jsstring" where
  "js s = map of_char s"

text \<open>
  The class \<^verbatim>\<open>\s\<close> of a regular expression, which is also what \<^verbatim>\<open>trim()\<close>
  removes (WhiteSpace and LineTerminator of ECMA-262): TAB, LF, VT, FF, CR, SP, NBSP,
  U+1680, U+2000 to U+200A, U+2028, U+2029, U+202F, U+205F, U+3000 and U+FEFF.
\<close>

definition is_space :: "nat \<Rightarrow> bool" where
  "is_space c \<longleftrightarrow>
     (9 \<le> c \<and> c \<le> 13) \<or> c = 32 \<or> c = 160 \<or> c = 5760 \<or> (8192 \<le> c \<and> c \<le> 8202) \<or>
     c = 8232 \<or> c = 8233 \<or> c = 8239 \<or> c = 8287 \<or> c = 12288 \<or> c = 65279"

definition is_digit :: "nat \<Rightarrow> bool" where
  "is_digit c \<longleftrightarrow> 48 \<le> c \<and> c \<le> 57"

definition is_upper :: "nat \<Rightarrow> bool" where
  "is_upper c \<longleftrightarrow> 65 \<le> c \<and> c \<le> 90"

definition is_lower :: "nat \<Rightarrow> bool" where
  "is_lower c \<longleftrightarrow> 97 \<le> c \<and> c \<le> 122"

text \<open>The word characters of \<^verbatim>\<open>\b\<close> and \<^verbatim>\<open>\w\<close>: \<^verbatim>\<open>[A-Za-z0-9_]\<close>.\<close>

definition is_word :: "nat \<Rightarrow> bool" where
  "is_word c \<longleftrightarrow> is_upper c \<or> is_lower c \<or> is_digit c \<or> c = 95"

text \<open>\<^verbatim>\<open>s.trim()\<close>\<close>

definition trim :: "jsstring \<Rightarrow> jsstring" where
  "trim s = rev (dropWhile is_space (rev (dropWhile is_space s)))"

text \<open>
  \<^verbatim>\<open>s.replace(/\s+/g, " ")\<close>: every maximal run of white space becomes one space (code
  unit 32).
\<close>

function collapse_ws :: "jsstring \<Rightarrow> jsstring" where
  "collapse_ws [] = []"
| "collapse_ws (c # cs) =
     (if is_space c then 32 # collapse_ws (dropWhile is_space cs) else c # collapse_ws cs)"
  by pat_completeness auto
termination
  by (relation "measure length") (auto simp: less_Suc_eq_le length_dropWhile_le)

text \<open>\<^verbatim>\<open>s.startsWith(p)\<close> and \<^verbatim>\<open>s.includes(p)\<close>\<close>

fun startsWith :: "jsstring \<Rightarrow> jsstring \<Rightarrow> bool" where
  "startsWith s [] = True"
| "startsWith [] (c # cs) = False"
| "startsWith (x # xs) (c # cs) = (x = c \<and> startsWith xs cs)"

fun str_includes :: "jsstring \<Rightarrow> jsstring \<Rightarrow> bool" where
  "str_includes [] p = (p = [])"
| "str_includes (x # xs) p = (startsWith (x # xs) p \<or> str_includes xs p)"

text \<open>
  \<^verbatim>\<open>(title || "").replace(/\s+/g, " ").trim()\<close>, the first line of both
  \<^verbatim>\<open>classifyTitleGroup\<close> and \<^verbatim>\<open>parseLotCountFromTitle\<close>. The title of a row is
  always a string, for which \<^verbatim>\<open>title || ""\<close> is the title itself.
\<close>

definition normalizeTitle :: "jsstring \<Rightarrow> jsstring" where
  "normalizeTitle title = trim (collapse_ws title)"

section \<open>Regular expressions\<close>

text \<open>
  The fragment of JavaScript's regular expressions that the source uses, all with the flag
  \<^verbatim>\<open>i\<close> and without the flag \<^verbatim>\<open>u\<close>. \<open>Cap\<close> is the capturing group number 1 (no
  pattern of the source has a second one).
\<close>

datatype regex =
    Eps
  | Lit nat
  | Digit
  | Space
  | WordB
  | Seq regex regex
  | Opt regex
  | Star regex
  | Plus regex
  | Rep12 regex
  | Cap regex

text \<open>
  Canonicalize of ECMA-262 for a pattern without the flag \<^verbatim>\<open>u\<close>: the upper-case form of
  the code unit, except that a code unit from 128 on is never mapped below 128. The
  patterns of the source hold ASCII characters only, and a code unit from 128 on never
  canonicalizes to one of them; so only the ASCII letters are folded here.
\<close>

definition canon :: "nat \<Rightarrow> nat" where
  "canon c = (if is_lower c then c - 32 else c)"

text \<open>
  A matcher state is a position in the subject, given by the code unit before it (none at
  the start) and the rest of the subject from it on, together with the text last captured
  by group 1. The matcher returns the states in which a match of the pattern from the
  given state can end, in the order in which JavaScript's backtracking tries them (a
  greedy quantifier tries one more iteration first); the head of the list is the match
  JavaScript reports.
\<close>

type_synonym mstate = "nat option \<times> jsstring \<times> jsstring option"

definition rest :: "mstate \<Rightarrow> jsstring" where
  "rest st = fst (snd st)"

text \<open>
  The greedy star: one more iteration first, the end of the repetition last. As in
  RepeatMatcher of ECMA-262, an iteration that consumes nothing is rejected.
\<close>

function star :: "(mstate \<Rightarrow> mstate list) \<Rightarrow> mstate \<Rightarrow> mstate list" where
  "star f st =
     concat (map (star f) (filter (\<lambda>st'. length (rest st') < length (rest st)) (f st))) @ [st]"
  by pat_completeness auto
termination
  by (relation "measure (\<lambda>(f, st). length (rest st))") auto

declare star.simps [simp del]

text \<open>\<^verbatim>\<open>\b\<close> holds where exactly one of the two neighbours is a word character.\<close>

definition word_before :: "nat option \<Rightarrow> bool" where
  "word_before p = (case p of None \<Rightarrow> False | Some c \<Rightarrow> is_word c)"

definition word_after :: "jsstring \<Rightarrow> bool" where
  "word_after s = (case s of [] \<Rightarrow> False | c # _ \<Rightarrow> is_word c)"

text \<open>One code unit of a class, or of a pattern character up to Canonicalize.\<close>

fun one :: "(nat \<Rightarrow> bool) \<Rightarrow> mstate \<Rightarrow> mstate list" where
  "one P (p, [], cap) = []"
| "one P (p, c # cs, cap) = (if P c then [(Some c, cs, cap)] else [])"

text \<open>The text between two states, for the capturing group.\<close>

fun capture :: "mstate \<Rightarrow> mstate \<Rightarrow> mstate" where
  "capture (p, s, cap) (p', s', cap') = (p', s', Some (take (length s - length s') s))"

primrec rmatch :: "regex \<Rightarrow> mstate \<Rightarrow> mstate list" where
  "rmatch Eps st = [st]"
| "rmatch (Lit c) st = one (\<lambda>x. canon x = canon c) st"
| "rmatch Digit st = one is_digit st"
| "rmatch Space st = one is_space st"
| "rmatch WordB st = (if word_before (fst st) \<noteq> word_after (rest st) then [st] else [])"
| "rmatch (Seq a b) st = concat (map (rmatch b) (rmatch a st))"
| "rmatch (Opt a) st =
     filter (\<lambda>st'. length (rest st') < length (rest st)) (rmatch a st) @ [st]"
| "rmatch (Star a) st = star (rmatch a) st"
| "rmatch (Plus a) st = concat (map (star (rmatch a)) (rmatch a st))"
| "rmatch (Rep12 a) st = concat (map (\<lambda>st'. rmatch a st' @ [st']) (rmatch a st))"
| "rmatch (Cap a) st = map (capture st) (rmatch a st)"

text \<open>
  A pattern is the sequence of its terms, and a word of the pattern the sequence of its
  characters: \<open>lit ''kfc''\<close> is \<^verbatim>\<open>kfc\<close>.
\<close>

definition seqs :: "regex list \<Rightarrow> regex" where
  "seqs rs = foldr Seq rs Eps"

definition lit :: "string \<Rightarrow> regex" where
  "lit w = seqs (map (\<lambda>c. Lit (of_char c)) w)"

text \<open>
  RegExpBuiltinExec for a pattern without the flag \<^verbatim>\<open>g\<close>: the start positions are tried
  from left to right, and the first one where the pattern matches gives the result.
  \<open>scan r p s\<close> tries the positions of \<open>s\<close>, which follows the code unit \<open>p\<close>.
\<close>

fun scan :: "regex \<Rightarrow> nat option \<Rightarrow> jsstring \<Rightarrow> mstate option" where
  "scan r p [] = (case rmatch r (p, [], None) of [] \<Rightarrow> None | st # _ \<Rightarrow> Some st)"
| "scan r p (c # cs) =
     (case rmatch r (p, c # cs, None) of [] \<Rightarrow> scan r (Some c) cs | st # _ \<Rightarrow> Some st)"

definition exec :: "regex \<Rightarrow> jsstring \<Rightarrow> mstate option" where
  "exec r s = scan r None s"

text \<open>\<^verbatim>\<open>re.test(s)\<close>\<close>

definition test :: "regex \<Rightarrow> jsstring \<Rightarrow> bool" where
  "test r s \<longleftrightarrow> exec r s \<noteq> None"

text \<open>
  \<^verbatim>\<open>s.match(re)\<close>, of which the source reads \<^verbatim>\<open>m[1]\<close> only: the text of group 1 of
  the first match, or \<open>None\<close> for the \<^verbatim>\<open>null\<close> of no match. (Group 1 takes part in every
  match of the patterns it occurs in.)
\<close>

definition match1 :: "regex \<Rightarrow> jsstring \<Rightarrow> jsstring option" where
  "match1 r s =
     (case exec r s of
        None \<Rightarrow> None
      | Some (_, _, cap) \<Rightarrow> Some (case cap of None \<Rightarrow> [] | Some m \<Rightarrow> m))"

section \<open>The title classifier (src/app/page.tsx)\<close>

text \<open>The object \<^verbatim>\<open>has\<close> of \<^verbatim>\<open>classifyTitleGroup\<close>: one flag per feature.\<close>

record features =
  has_kfc :: bool
  has_sealed :: bool
  has_tagTeam :: bool
  has_trainer :: bool
  has_ocd :: bool
  has_masterBall :: bool
  has_logoReverse :: bool
  has_ballHolo :: bool
  has_mix :: bool
  has_ar :: bool
  has_chr :: bool
  has_sr :: bool
  has_hr :: bool
  has_rrr :: bool
  has_rr :: bool
  has_vmax :: bool
  has_japanese :: bool
  has_otherRarity :: bool

text \<open>\<^verbatim>\<open>/\bw\b/i\<close> for a word \<open>w\<close>.\<close>

definition wordre :: "string \<Rightarrow> regex" where
  "wordre w = seqs [WordB, lit w, WordB]"

definition has :: "jsstring \<Rightarrow> features" where
  "has t = \<lparr>
     has_kfc = test (wordre ''kfc'') t,
     has_sealed = test (wordre ''sealed'') t,
     has_tagTeam = test (seqs [WordB, lit ''tag'', Star Space, lit ''team'', WordB]) t,
     has_trainer =
       (test (wordre ''trainer'') t \<or> test (wordre ''supporter'') t \<or> test (wordre ''item'') t),
     has_ocd = test (wordre ''ocd'') t,
     has_masterBall = test (seqs [WordB, lit ''master'', Star Space, lit ''ball'', WordB]) t,
     has_logoReverse = (test (wordre ''logo'') t \<and> test (wordre ''reverse'') t),
     has_ballHolo = (test (wordre ''ball'') t \<and> test (wordre ''holo'') t),
     has_mix = test (wordre ''mix'') t,
     has_ar = test (wordre ''ar'') t,
     has_chr = test (wordre ''chr'') t,
     has_sr = test (wordre ''sr'') t,
     has_hr = test (wordre ''hr'') t,
     has_rrr = test (wordre ''rrr'') t,
     has_rr = test (wordre ''rr'') t,
     has_vmax = test (wordre ''vmax'') t,
     has_japanese = test (wordre ''japanese'') t,
     has_otherRarity =
       (test (wordre ''rrrr'') t \<or> test (wordre ''ur'') t \<or> test (wordre ''ssr'') t \<or>
        test (wordre ''sar'') t \<or> test (wordre ''csr'') t \<or> test (wordre ''ace'') t \<or>
        test (wordre ''ex'') t \<or> test (wordre ''gold'') t \<or> test (wordre ''secret'') t)
   \<rparr>"

text \<open>
  \<^verbatim>\<open>type TitleRule = { name: string; test: (t: string) => boolean }\<close>. The tests of the
  source ignore their argument and read the flags of \<^verbatim>\<open>has\<close>, which they close over;
  here a test takes the flags.
\<close>

type_synonym TitleRule = "string \<times> (features \<Rightarrow> bool)"

definition rules :: "TitleRule list" where
  "rules = [
     (''KFC Pack'', \<lambda>h. has_kfc h),
     (''Sealed'', \<lambda>h. has_sealed h),
     (''TAG TEAM'', \<lambda>h. has_tagTeam h),
     (''Trainer Item / Supporter'', \<lambda>h. has_trainer h),
     (''OCD'', \<lambda>h. has_ocd h),
     (''Master Ball'', \<lambda>h. has_masterBall h),
     (''Logo Reverse Holo'', \<lambda>h. has_logoReverse h),
     (''Ball Holo'', \<lambda>h. has_ballHolo h),
     (''Mix'', \<lambda>h. has_mix h),
     (''AR/CHR'', \<lambda>h. has_ar h \<or> has_chr h),
     (''SR/HR'', \<lambda>h. (has_sr h \<or> has_hr h) \<and> \<not> has_ocd h),
     (''Japanese'', \<lambda>h. has_japanese h),
     (''RRR+VMAX'', \<lambda>h. has_rrr h \<and> has_vmax h \<and> \<not> has_rr h \<and> \<not> has_otherRarity h),
     (''RR+RRR'', \<lambda>h. has_rr h \<and> has_rrr h \<and> \<not> has_otherRarity h),
     (''RR Only'', \<lambda>h. has_rr h \<and> \<not> has_rrr h \<and> \<not> has_otherRarity h)
   ]"

text \<open>\<^verbatim>\<open>for (const r of rules) if (r.test(t)) return r.name; return "Other";\<close>\<close>

fun first_rule :: "TitleRule list \<Rightarrow> features \<Rightarrow> string" where
  "first_rule [] h = ''Other''"
| "first_rule (r # rs) h = (if snd r h then fst r else first_rule rs h)"

definition classifyTitleGroup :: "jsstring \<Rightarrow> jsstring" where
  "classifyTitleGroup title = (let t = normalizeTitle title in js (first_rule rules (has t)))"

section \<open>JavaScript numbers\<close>

text \<open>
  A JavaScript number is an IEEE 754 double. The special values are kept; a finite double
  is represented by the rational number it denotes, and arithmetic on finite values is
  exact: the rounding of a result to the nearest double is not modelled, and neither is
  the overflow of an arithmetic result. The zeros \<^verbatim>\<open>+0\<close> and \<^verbatim>\<open>-0\<close>, which no
  operation of the source tells apart, are both \<open>Fin 0\<close>. This holds for the operations
  of this section; the operations that round their result, \<open>fadd\<close>, \<open>fmul\<close> and \<open>fhalf\<close>,
  are defined with the median and the percentile, whose values depend on the rounding.
\<close>

datatype jsnum = Fin rat | PInf | NInf | NaN

text \<open>\<^verbatim>\<open>Number.isFinite(v)\<close> for a number \<open>v\<close>.\<close>

fun isFinite :: "jsnum \<Rightarrow> bool" where
  "isFinite (Fin x) = True"
| "isFinite _ = False"

text \<open>ToBoolean of a number: \<^verbatim>\<open>0\<close> and \<^verbatim>\<open>NaN\<close> are falsy.\<close>

fun truthy :: "jsnum \<Rightarrow> bool" where
  "truthy (Fin x) = (x \<noteq> 0)"
| "truthy NaN = False"
| "truthy _ = True"

text \<open>\<^verbatim>\<open>a < b\<close> and \<^verbatim>\<open>a <= b\<close>: a comparison with \<^verbatim>\<open>NaN\<close> is false.\<close>

fun jslt :: "jsnum \<Rightarrow> jsnum \<Rightarrow> bool" where
  "jslt NaN _ = False"
| "jslt _ NaN = False"
| "jslt (Fin x) (Fin y) = (x < y)"
| "jslt _ NInf = False"
| "jslt PInf _ = False"
| "jslt NInf _ = True"
| "jslt _ PInf = True"

fun jsle :: "jsnum \<Rightarrow> jsnum \<Rightarrow> bool" where
  "jsle NaN _ = False"
| "jsle _ NaN = False"
| "jsle a b = (a = b \<or> jslt a b)"

text \<open>\<^verbatim>\<open>-a\<close>, \<^verbatim>\<open>a + b\<close>, \<^verbatim>\<open>a - b\<close> and \<^verbatim>\<open>a * b\<close>.\<close>

fun jsneg :: "jsnum \<Rightarrow> jsnum" where
  "jsneg (Fin x) = Fin (- x)"
| "jsneg PInf = NInf"
| "jsneg NInf = PInf"
| "jsneg NaN = NaN"

fun jsadd :: "jsnum \<Rightarrow> jsnum \<Rightarrow> jsnum" where
  "jsadd NaN _ = NaN"
| "jsadd _ NaN = NaN"
| "jsadd (Fin x) (Fin y) = Fin (x + y)"
| "jsadd PInf NInf = NaN"
| "jsadd NInf PInf = NaN"
| "jsadd PInf _ = PInf"
| "jsadd NInf _ = NInf"
| "jsadd _ b = b"

definition jssub :: "jsnum \<Rightarrow> jsnum \<Rightarrow> jsnum" where
  "jssub a b = jsadd a (jsneg b)"

text \<open>The sign of a number that is not \<^verbatim>\<open>NaN\<close>: \<open>-1\<close>, \<open>0\<close> or \<open>1\<close>.\<close>

fun jssgn :: "jsnum \<Rightarrow> int" where
  "jssgn (Fin x) = (if x < 0 then - 1 else if x = 0 then 0 else 1)"
| "jssgn PInf = 1"
| "jssgn NInf = - 1"
| "jssgn NaN = 0"

fun jsmul :: "jsnum \<Rightarrow> jsnum \<Rightarrow> jsnum" where
  "jsmul NaN _ = NaN"
| "jsmul _ NaN = NaN"
| "jsmul (Fin x) (Fin y) = Fin (x * y)"
| "jsmul a b =
     (if jssgn a * jssgn b = 0 then NaN else if jssgn a * jssgn b < 0 then NInf else PInf)"

text \<open>
  \<^verbatim>\<open>Math.round(x)\<close>: the integer nearest to \<open>x\<close>, the larger one of two that are equally
  near.
\<close>

fun Math_round :: "jsnum \<Rightarrow> jsnum" where
  "Math_round (Fin x) = Fin (of_int \<lfloor>x + 1 / 2\<rfloor>)"
| "Math_round a = a"

subsection \<open>\<^verbatim>\<open>Number(s)\<close> for a string\<close>

text \<open>
  StringToNumber of ECMA-262. The value of a literal beyond the range of the doubles is
  an infinity (from \<open>2^1024 - 2^970\<close> on, which rounds up to \<open>2^1024\<close>), and a value of at most
  \<open>2^-1075\<close> is zero; between the two the decimal value stands for the double nearest to it.
\<close>

definition of_literal :: "rat \<Rightarrow> jsnum" where
  "of_literal v =
     (if 2 ^ 1024 - 2 ^ 970 \<le> v then PInf
      else if v \<le> 1 / 2 ^ 1075 then Fin 0
      else Fin v)"

definition digit_val :: "nat \<Rightarrow> nat" where
  "digit_val c =
     (if is_digit c then c - 48 else if is_lower c then c - 87 else c - 55)"

text \<open>The value of a sequence of digits in the base \<open>b\<close>.\<close>

definition digits_val :: "nat \<Rightarrow> jsstring \<Rightarrow> nat" where
  "digits_val b ds = foldl (\<lambda>a c. b * a + digit_val c) 0 ds"

definition is_hex :: "nat \<Rightarrow> bool" where
  "is_hex c \<longleftrightarrow> is_digit c \<or> (97 \<le> c \<and> c \<le> 102) \<or> (65 \<le> c \<and> c \<le> 70)"

text \<open>SignedInteger of an ExponentPart: \<^verbatim>\<open>[+-]?[0-9]+\<close>.\<close>

definition SignedInteger :: "jsstring \<Rightarrow> int option" where
  "SignedInteger s =
     (let (neg, ds) = (case s of
          c # cs \<Rightarrow> if c = 45 then (True, cs) else if c = 43 then (False, cs) else (False, s)
        | [] \<Rightarrow> (False, s))
      in if ds \<noteq> [] \<and> list_all is_digit ds
         then Some (if neg then - int (digits_val 10 ds) else int (digits_val 10 ds))
         else None)"

text \<open>
  The optional ExponentPart at the end of a literal: nothing, or \<^verbatim>\<open>e\<close> or \<^verbatim>\<open>E\<close> and
  a SignedInteger.
\<close>

definition ExponentPart :: "jsstring \<Rightarrow> int option" where
  "ExponentPart s =
     (case s of
        [] \<Rightarrow> Some 0
      | c # cs \<Rightarrow> if c = 101 \<or> c = 69 then SignedInteger cs else None)"

text \<open>
  StrUnsignedDecimalLiteral other than \<^verbatim>\<open>Infinity\<close>: digits, then a point and digits, then
  an exponent, with a digit before or after the point. The result is the mathematical
  value, \<open>None\<close> where the string is no such literal.
\<close>

definition StrUnsignedDecimalLiteral :: "jsstring \<Rightarrow> rat option" where
  "StrUnsignedDecimalLiteral s =
     (let ip = takeWhile is_digit s;
          r1 = dropWhile is_digit s;
          fp = (case r1 of [] \<Rightarrow> [] | c # cs \<Rightarrow> if c = 46 then takeWhile is_digit cs else []);
          r2 = (case r1 of [] \<Rightarrow> [] | c # cs \<Rightarrow> if c = 46 then dropWhile is_digit cs else r1)
      in if ip = [] \<and> fp = [] then None
         else case ExponentPart r2 of
           None \<Rightarrow> None
         | Some e \<Rightarrow>
             let m = of_nat (digits_val 10 ip) + of_nat (digits_val 10 fp) / 10 ^ length fp
             in Some (if 0 \<le> e then m * 10 ^ nat e else m / 10 ^ nat (- e)))"

text \<open>NonDecimalIntegerLiteral: \<^verbatim>\<open>0x\<close>, \<^verbatim>\<open>0o\<close> or \<^verbatim>\<open>0b\<close> (in either case) and digits.\<close>

definition NonDecimalIntegerLiteral :: "jsstring \<Rightarrow> rat option" where
  "NonDecimalIntegerLiteral s =
     (case s of
        z # x # ds \<Rightarrow>
          if z = 48 \<and> ds \<noteq> [] then
            if (x = 120 \<or> x = 88) \<and> list_all is_hex ds then Some (of_nat (digits_val 16 ds))
            else if (x = 111 \<or> x = 79) \<and> list_all (\<lambda>c. 48 \<le> c \<and> c \<le> 55) ds
              then Some (of_nat (digits_val 8 ds))
            else if (x = 98 \<or> x = 66) \<and> list_all (\<lambda>c. c = 48 \<or> c = 49) ds
              then Some (of_nat (digits_val 2 ds))
            else None
          else None
      | _ \<Rightarrow> None)"

definition StrUnsignedNumeric :: "jsstring \<Rightarrow> jsnum" where
  "StrUnsignedNumeric s =
     (if s = js ''Infinity'' then PInf
      else case StrUnsignedDecimalLiteral s of Some v \<Rightarrow> of_literal v | None \<Rightarrow> NaN)"

definition Number :: "jsstring \<Rightarrow> jsnum" where
  "Number str =
     (let s = trim str in
      if s = [] then Fin 0
      else case NonDecimalIntegerLiteral s of
        Some v \<Rightarrow> of_literal v
      | None \<Rightarrow>
          (case s of
             c # cs \<Rightarrow>
               if c = 45 then jsneg (StrUnsignedNumeric cs)
               else if c = 43 then StrUnsignedNumeric cs
               else StrUnsignedNumeric s
           | [] \<Rightarrow> Fin 0))"

section \<open>The lot count of a title\<close>

text \<open>The numeral of both patterns: \<^verbatim>\<open>(\d+(?:\.\d{1,2})?)\<close>.\<close>

definition lot_numeral :: regex where
  "lot_numeral = Cap (seqs [Plus Digit, Opt (seqs [Lit 46, Rep12 Digit])])"

text \<open>\<^verbatim>\<open>/\b(\d+(?:\.\d{1,2})?)\s*lot\b/i\<close> and \<^verbatim>\<open>/\blot\s*(\d+(?:\.\d{1,2})?)\b/i\<close>\<close>

definition lot_leading :: regex where
  "lot_leading = seqs [WordB, lot_numeral, Star Space, lit ''lot'', WordB]"

definition lot_trailing :: regex where
  "lot_trailing = seqs [WordB, lit ''lot'', Star Space, lot_numeral, WordB]"

definition parseLotCountFromTitle :: "jsstring \<Rightarrow> jsnum" where
  "parseLotCountFromTitle title =
     (let t = normalizeTitle title;
          m = (case match1 lot_leading t of None \<Rightarrow> match1 lot_trailing t | Some raw \<Rightarrow> Some raw)
      in case m of
        None \<Rightarrow> Fin 1
      | Some raw \<Rightarrow>
          let n = Number raw in
          if \<not> isFinite n then Fin 1
          else if jsle n (Fin 0) then Fin 1
          else if str_includes raw (js ''.'') \<and> jslt n (Fin 10) \<and>
                  jsle (Fin 10) (Math_round (jsmul n (Fin 100))) \<and>
                  jsle (Math_round (jsmul n (Fin 100))) (Fin 5000)
            then Math_round (jsmul n (Fin 100))
          else Math_round n)"

section \<open>Cells of the sheet\<close>

text \<open>
  A raw cell (\<^verbatim>\<open>v: any\<close>) as \<^verbatim>\<open>sheet_to_json\<close> delivers it: absent, a number, a
  string or a boolean.
\<close>

datatype rawval = Undefined | Null | RNum jsnum | RStr jsstring | RBool bool

text \<open>
  \<^verbatim>\<open>String(v)\<close> for a boolean, and the last lines of \<^verbatim>\<open>toNumber\<close> of
  src/app/page.tsx for the text \<open>s0\<close> of the cell; \<^verbatim>\<open>.replace(/,/g, "")\<close> removes every
  comma (code unit 44).
\<close>

definition String_of_bool :: "bool \<Rightarrow> jsstring" where
  "String_of_bool b = (if b then js ''true'' else js ''false'')"

definition toNumber_text :: "jsstring \<Rightarrow> jsnum" where
  "toNumber_text s0 =
     (let s = filter (\<lambda>c. c \<noteq> 44) (trim s0) in
      if s = [] then Fin 0
      else let n = Number s in if isFinite n then n else Fin 0)"

definition toNumber :: "rawval \<Rightarrow> jsnum" where
  "toNumber v =
     (case v of
        Null \<Rightarrow> Fin 0
      | Undefined \<Rightarrow> Fin 0
      | RNum n \<Rightarrow> (if isFinite n then n else Fin 0)
      | RStr s \<Rightarrow> toNumber_text s
      | RBool b \<Rightarrow> toNumber_text (String_of_bool b))"

text \<open>
  \<^verbatim>\<open>toNumber\<close> of the second version of the page (src/unnamed/part_000), which answers
  0 for the empty string and otherwise removes, after the commas, every code unit that is
  not of \<^verbatim>\<open>[\d.-]\<close>: \<^verbatim>\<open>String(v).replace(/,/g, "").replace(/[^\d.-]/g, "")\<close>.
\<close>

definition toNumber_text_part000 :: "jsstring \<Rightarrow> jsnum" where
  "toNumber_text_part000 s0 =
     (let s = filter (\<lambda>c. is_digit c \<or> c = 46 \<or> c = 45) (filter (\<lambda>c. c \<noteq> 44) s0);
          n = Number s
      in if isFinite n then n else Fin 0)"

definition toNumber_part000 :: "rawval \<Rightarrow> jsnum" where
  "toNumber_part000 v =
     (case v of
        Null \<Rightarrow> Fin 0
      | Undefined \<Rightarrow> Fin 0
      | RNum n \<Rightarrow> (if isFinite n then n else Fin 0)
      | RStr s \<Rightarrow> (if s = [] then Fin 0 else toNumber_text_part000 s)
      | RBool b \<Rightarrow> toNumber_text_part000 (String_of_bool b))"

section \<open>Rows and their stable identifier\<close>

text \<open>
  A \<^verbatim>\<open>Date\<close> of a row is its time value, the milliseconds since the epoch; \<open>None\<close> is
  \<^verbatim>\<open>null\<close>. (\<^verbatim>\<open>excelDateToJSDate\<close> answers \<^verbatim>\<open>null\<close> for what it cannot read, so a row
  holds no invalid date.)
\<close>

record Row =
  sku :: jsstring
  name :: jsstring
  category :: jsstring
  payoutStatus :: jsstring
  soldQty :: jsnum
  gmvUsd :: jsnum
  payoutCny :: jsnum
  paidAt :: "int option"
  payoutAt :: "int option"
  titleGroup :: jsstring

text \<open>
  The \<^verbatim>\<open>Date\<close> object belongs to the host and depends on its time zone. The model takes
  what the source calls of it as a parameter: the constructor from local date and time
  fields, which answers a time value (\<^verbatim>\<open>NaN\<close> for an invalid date), the local year, month
  and day of a time value, and the ISO 8601 text of a valid date.
\<close>

record host =
  newDate :: "jsnum list \<Rightarrow> jsnum"
  getFullYear :: "jsnum \<Rightarrow> jsnum"
  getMonth :: "jsnum \<Rightarrow> jsnum"
  getDate :: "jsnum \<Rightarrow> jsnum"
  toISOString :: "int \<Rightarrow> jsstring"

text \<open>\<^verbatim>\<open>n.toString(36)\<close> for a natural number.\<close>

definition digit36 :: "nat \<Rightarrow> nat" where
  "digit36 d = (if d < 10 then 48 + d else 87 + d)"

function toString36 :: "nat \<Rightarrow> jsstring" where
  "toString36 n = (if n < 36 then [digit36 n] else toString36 (n div 36) @ [digit36 (n mod 36)])"
  by pat_completeness auto
termination
  by (relation "measure id") auto

declare toString36.simps [simp del]

text \<open>
  \<^verbatim>\<open>hashStr\<close>: FNV-1a on 32 bits. \<^verbatim>\<open>h ^= s.charCodeAt(i)\<close> and \<^verbatim>\<open>Math.imul\<close> work on
  the 32-bit pattern of \<open>h\<close>, which \<^verbatim>\<open>h >>> 0\<close> reads as an unsigned number.
\<close>

definition hashStr :: "jsstring \<Rightarrow> jsstring" where
  "hashStr s =
     toString36 (unat (foldl (\<lambda>h c. (h XOR word_of_nat c) * 16777619) (2166136261 :: 32 word) s))"

text \<open>\<^verbatim>\<open>[a, b, c, d].join("|")\<close>\<close>

definition join4 :: "jsstring \<Rightarrow> jsstring \<Rightarrow> jsstring \<Rightarrow> jsstring \<Rightarrow> jsstring" where
  "join4 a b c d = a @ [124] @ b @ [124] @ c @ [124] @ d"

definition rowId :: "host \<Rightarrow> Row \<Rightarrow> jsstring" where
  "rowId H r =
     hashStr (join4 (sku r) (name r)
       (case paidAt r of None \<Rightarrow> [] | Some d \<Rightarrow> toISOString H d)
       (case payoutAt r of None \<Rightarrow> [] | Some d \<Rightarrow> toISOString H d))"

section \<open>Costs and profit\<close>

text \<open>
  A cost table (\<^verbatim>\<open>Record<string, number>\<close>) is a finite map; a key that is absent reads
  as \<^verbatim>\<open>undefined\<close>, for which \<^verbatim>\<open>Number.isFinite\<close> is false. A value that is no finite
  number (such as the \<^verbatim>\<open>null\<close> that JSON stores for \<^verbatim>\<open>NaN\<close>) fails \<^verbatim>\<open>Number.isFinite\<close>
  as \<^verbatim>\<open>NaN\<close> does and is represented by it.
\<close>

type_synonym costs = "jsstring \<rightharpoonup> jsnum"

definition COST_DEFAULTS_list :: "(string \<times> rat) list" where
  "COST_DEFAULTS_list = [
     (''AR/CHR'', 2),
     (''Ball Holo'', 2 / 10),
     (''Japanese'', 5 / 10),
     (''KFC Pack'', 3),
     (''Logo Reverse Holo'', 1),
     (''Master Ball'', 7 / 10),
     (''Mix'', 2 / 10),
     (''OCD'', 14),
     (''RR Only'', 4 / 10),
     (''RR+RRR'', 6 / 10),
     (''RRR+VMAX'', 7 / 10),
     (''SR/HR'', 3),
     (''Sealed'', 0),
     (''TAG TEAM'', 0),
     (''Trainer Item / Supporter'', 0),
     (''V/VMAX/VSTAR'', 0),
     (''VSTAR Universe'', 0),
     (''VSTAR Universe (Sealed)'', 0),
     (''VSTAR Universe (Singles)'', 0),
     (''VSTAR Universe (Lots)'', 0),
     (''VSTAR Universe (Master Ball)'', 7 / 10),
     (''VSTAR Universe (AR/CHR)'', 2),
     (''VSTAR Universe (SR/HR)'', 3),
     (''Other'', 0)
   ]"

definition COST_DEFAULTS :: costs where
  "COST_DEFAULTS = map_of (map (\<lambda>(k, v). (js k, Fin v)) COST_DEFAULTS_list)"

text \<open>The calculators of the page: \<^verbatim>\<open>Number(v)\<close> of a finite number is the number.\<close>

definition lotCountOf :: "Row \<Rightarrow> jsnum" where
  "lotCountOf r = parseLotCountFromTitle (name r)"

definition costPerLotOfGroup :: "costs \<Rightarrow> jsstring \<Rightarrow> jsnum" where
  "costPerLotOfGroup costMap g =
     (case costMap g of
        Some v \<Rightarrow> (if isFinite v then v else Fin 0)
      | None \<Rightarrow> Fin 0)"

definition costPerLotForRow :: "host \<Rightarrow> costs \<Rightarrow> costs \<Rightarrow> Row \<Rightarrow> jsnum" where
  "costPerLotForRow H costMap rowCostOverride r =
     (let id = rowId H r in
      case rowCostOverride id of
        Some v \<Rightarrow> (if isFinite v then v else costPerLotOfGroup costMap (titleGroup r))
      | None \<Rightarrow> costPerLotOfGroup costMap (titleGroup r))"

definition totalCostOf :: "host \<Rightarrow> costs \<Rightarrow> costs \<Rightarrow> Row \<Rightarrow> jsnum" where
  "totalCostOf H costMap rowCostOverride r =
     jsmul (costPerLotForRow H costMap rowCostOverride r) (lotCountOf r)"

definition totalCostOfDefault :: "costs \<Rightarrow> Row \<Rightarrow> jsnum" where
  "totalCostOfDefault costMap r = jsmul (costPerLotOfGroup costMap (titleGroup r)) (lotCountOf r)"

definition profitOf :: "host \<Rightarrow> costs \<Rightarrow> costs \<Rightarrow> Row \<Rightarrow> jsnum" where
  "profitOf H costMap rowCostOverride r =
     (if truthy (payoutCny r)
      then jssub (payoutCny r) (totalCostOf H costMap rowCostOverride r)
      else Fin 0)"

definition profitOfDefault :: "costs \<Rightarrow> Row \<Rightarrow> jsnum" where
  "profitOfDefault costMap r =
     (if truthy (payoutCny r) then jssub (payoutCny r) (totalCostOfDefault costMap r) else Fin 0)"

section \<open>Loading the cost table\<close>

text \<open>
  The stored document is what \<^verbatim>\<open>JSON.parse\<close> makes of the text under the key: \<open>None\<close>
  when the key is absent or its text is empty or does not parse (the \<^verbatim>\<open>catch\<close> ignores
  it), and otherwise a table, as the page itself writes it with \<^verbatim>\<open>JSON.stringify\<close>.

  \<^verbatim>\<open>useLocalStorageState\<close> of src/app/page.tsx starts from \<^verbatim>\<open>initial\<close>, and its effect
  replaces the state by the stored document: \<^verbatim>\<open>if (raw) setValue(JSON.parse(raw) as T)\<close>.
\<close>

definition useLocalStorageState :: "'a \<Rightarrow> 'a option \<Rightarrow> 'a" where
  "useLocalStorageState initial stored = (case stored of None \<Rightarrow> initial | Some v \<Rightarrow> v)"

text \<open>
  \<^verbatim>\<open>useLocalStorageState(LS_COST_MAP_KEY, { ...COST_DEFAULTS })\<close>, the cost table of
  src/app/page.tsx after loading.
\<close>

definition costMap :: "costs option \<Rightarrow> costs" where
  "costMap stored = useLocalStorageState COST_DEFAULTS stored"

text \<open>
  The cost table of the second version of the page (src/unnamed/part_000), for its table
  \<open>defaults\<close> (its \<^verbatim>\<open>COST_DEFAULTS\<close>, which has fewer categories):
  \<^verbatim>\<open>if (raw) return { ...COST_DEFAULTS, ...JSON.parse(raw) }; return COST_DEFAULTS\<close>.
\<close>

definition costMap_part000 :: "costs \<Rightarrow> costs option \<Rightarrow> costs" where
  "costMap_part000 defaults stored =
     (case stored of None \<Rightarrow> defaults | Some doc \<Rightarrow> defaults ++ doc)"

section \<open>Filtering by a date range\<close>

text \<open>\<^verbatim>\<open>s.split("-")\<close>: the pieces of \<open>s\<close> between the code units \<open>sep\<close>.\<close>

fun split_on :: "nat \<Rightarrow> jsstring \<Rightarrow> jsstring list" where
  "split_on sep [] = [[]]"
| "split_on sep (c # cs) =
     (if c = sep then [] # split_on sep cs
      else case split_on sep cs of [] \<Rightarrow> [[c]] | p # ps \<Rightarrow> (c # p) # ps)"

text \<open>
  \<^verbatim>\<open>parseYmd\<close>: the pattern \<^verbatim>\<open>[y, m, d]\<close> reads the first three pieces, and one that is
  missing is \<^verbatim>\<open>undefined\<close>, which \<^verbatim>\<open>!\<close> takes for false as it does \<^verbatim>\<open>0\<close> and \<^verbatim>\<open>NaN\<close>.
  A \<^verbatim>\<open>Date\<close> built here is its time value.
\<close>

definition parseYmd :: "host \<Rightarrow> jsstring \<Rightarrow> jsnum option" where
  "parseYmd H ymd =
     (if ymd = [] then None
      else case map Number (split_on 45 ymd) of
        y # m # d # _ \<Rightarrow>
          if truthy y \<and> truthy m \<and> truthy d then Some (newDate H [y, jssub m (Fin 1), d])
          else None
      | _ \<Rightarrow> None)"

definition endOfDay :: "host \<Rightarrow> jsnum \<Rightarrow> jsnum" where
  "endOfDay H d =
     newDate H [getFullYear H d, getMonth H d, getDate H d, Fin 23, Fin 59, Fin 59, Fin 999]"

text \<open>
  \<^verbatim>\<open>endOfDay(parseYmd(endYmd)!)\<close> calls \<^verbatim>\<open>getFullYear\<close> of \<^verbatim>\<open>null\<close> when the text does
  not parse, which throws a TypeError.
\<close>

datatype error = TypeError

definition filterByDate ::
  "host \<Rightarrow> Row list \<Rightarrow> (Row \<Rightarrow> int option) \<Rightarrow> jsstring \<Rightarrow> jsstring \<Rightarrow> error + Row list" where
  "filterByDate H input getDt startYmd endYmd =
     (let start = parseYmd H startYmd in
      if endYmd \<noteq> [] \<and> parseYmd H endYmd = None then Inl TypeError
      else
        let end = (if endYmd \<noteq> [] then map_option (endOfDay H) (parseYmd H endYmd) else None) in
        if start = None \<and> end = None then Inr input
        else Inr (filter (\<lambda>r.
          case getDt r of
            None \<Rightarrow> False
          | Some dt \<Rightarrow>
              \<not> (case start of None \<Rightarrow> False | Some s \<Rightarrow> jslt (Fin (of_int dt)) s) \<and>
              \<not> (case end of None \<Rightarrow> False | Some e \<Rightarrow> jslt e (Fin (of_int dt)))) input))"

text \<open>The four date fields of the filter state of the page.\<close>

record filters =
  paidStartYmd :: jsstring
  paidEndYmd :: jsstring
  payoutStartYmd :: jsstring
  payoutEndYmd :: jsstring

definition paidRows :: "host \<Rightarrow> Row list \<Rightarrow> filters \<Rightarrow> error + Row list" where
  "paidRows H baseRows f = filterByDate H baseRows paidAt (paidStartYmd f) (paidEndYmd f)"

definition payoutRows :: "host \<Rightarrow> Row list \<Rightarrow> filters \<Rightarrow> error + Row list" where
  "payoutRows H baseRows f = filterByDate H baseRows payoutAt (payoutStartYmd f) (payoutEndYmd f)"

text \<open>
  The totals of \<^verbatim>\<open>kpi\<close>, each a \<^verbatim>\<open>reduce\<close> from 0; \<^verbatim>\<open>x || 0\<close> is \<open>x\<close> unless \<open>x\<close> is
  falsy. (The counts and the margin of \<^verbatim>\<open>kpi\<close> are left out.)
\<close>

definition or0 :: "jsnum \<Rightarrow> jsnum" where
  "or0 x = (if truthy x then x else Fin 0)"

record kpi =
  kpi_gmvUsd :: jsnum
  kpi_payoutCny :: jsnum
  kpi_totalCost :: jsnum
  kpi_totalProfit :: jsnum

definition kpi_of :: "host \<Rightarrow> costs \<Rightarrow> costs \<Rightarrow> Row list \<Rightarrow> Row list \<Rightarrow> kpi" where
  "kpi_of H cm ov paid payout = \<lparr>
     kpi_gmvUsd = foldl (\<lambda>s r. jsadd s (or0 (gmvUsd r))) (Fin 0) paid,
     kpi_payoutCny = foldl (\<lambda>s r. jsadd s (or0 (payoutCny r))) (Fin 0) payout,
     kpi_totalCost =
       foldl (\<lambda>s r. jsadd s (if truthy (payoutCny r) then totalCostOf H cm ov r else Fin 0))
         (Fin 0) payout,
     kpi_totalProfit = foldl (\<lambda>s r. jsadd s (profitOf H cm ov r)) (Fin 0) payout
   \<rparr>"

text \<open>
  One rendering of the page from the rows that pass the other filters (\<^verbatim>\<open>baseRows\<close>):
  \<^verbatim>\<open>paidRows\<close>, then \<^verbatim>\<open>payoutRows\<close>, then \<^verbatim>\<open>kpi\<close>; an exception ends it.
\<close>

definition page_kpi :: "host \<Rightarrow> costs \<Rightarrow> costs \<Rightarrow> Row list \<Rightarrow> filters \<Rightarrow> error + kpi" where
  "page_kpi H cm ov baseRows f =
     (case paidRows H baseRows f of
        Inl e \<Rightarrow> Inl e
      | Inr paid \<Rightarrow>
          (case payoutRows H baseRows f of
             Inl e \<Rightarrow> Inl e
           | Inr payout \<Rightarrow> Inr (kpi_of H cm ov paid payout)))"

text \<open>
  The end of a date range as the date inputs of the page deliver it: empty, or a date that
  \<open>parseYmd\<close> reads.
\<close>

definition valid_end :: "host \<Rightarrow> jsstring \<Rightarrow> bool" where
  "valid_end H e = (case parseYmd H e of None \<Rightarrow> e = [] | Some d \<Rightarrow> True)"

section \<open>Median and percentile\<close>

subsection \<open>The rounding of a result to the nearest double\<close>

text \<open>
  The median and the percentile compute with doubles: the sum, the product and the
  quotient of two finite doubles is the exact result, rounded to the nearest double, to
  the one with the even significand when two are equally near (IEEE 754, binary64).

  \<open>bit_length n\<close> is the number of binary digits of \<open>n\<close>, and \<open>binade x\<close>, for \<open>x > 0\<close>, the
  exponent \<open>e\<close> with \<open>2^e \<le> x < 2^(e + 1)\<close>. The doubles of this binade are the
  multiples of \<open>2^(e - 52)\<close>; below \<open>2^-1022\<close>, they are the multiples of \<open>2^-1074\<close>.
\<close>

fun bit_length :: "nat \<Rightarrow> nat" where
  "bit_length n = (if n = 0 then 0 else Suc (bit_length (n div 2)))"

declare bit_length.simps [simp del]

definition pow2 :: "int \<Rightarrow> rat" where
  "pow2 e = (if 0 \<le> e then 2 ^ nat e else 1 / 2 ^ nat (- e))"

definition binade :: "rat \<Rightarrow> int" where
  "binade x =
     (if 1 \<le> x then int (bit_length (nat \<lfloor>x\<rfloor>)) - 1
      else - int (bit_length (nat (\<lceil>1 / x\<rceil> - 1))))"

definition ulp :: "rat \<Rightarrow> rat" where
  "ulp x = pow2 (max (binade x) (- 1022) - 52)"

text \<open>The integer nearest to \<open>y\<close>, the even one of two that are equally near.\<close>

definition ties_even :: "int \<Rightarrow> rat \<Rightarrow> int" where
  "ties_even f r =
     (if r < 1 / 2 then f else if 1 / 2 < r then f + 1 else if even f then f else f + 1)"

definition round_even :: "rat \<Rightarrow> int" where
  "round_even y = ties_even \<lfloor>y\<rfloor> (y - of_int \<lfloor>y\<rfloor>)"

text \<open>
  The multiple of \<open>q\<close> nearest to \<open>x\<close>, and the rounding of \<open>x > 0\<close> in its binade. A
  rounded value from \<open>2^1024\<close> on is an infinity.
\<close>

definition round_at :: "rat \<Rightarrow> rat \<Rightarrow> rat" where
  "round_at q x = q * of_int (round_even (x / q))"

definition round_mag :: "rat \<Rightarrow> rat" where
  "round_mag x = round_at (ulp x) x"

definition overflow :: "rat \<Rightarrow> jsnum" where
  "overflow r = (if 2 ^ 1024 \<le> r then PInf else Fin r)"

definition round_double :: "rat \<Rightarrow> jsnum" where
  "round_double x =
     (if x = 0 then Fin 0
      else if x < 0 then jsneg (overflow (round_mag (- x)))
      else overflow (round_mag x))"

text \<open>\<^verbatim>\<open>a + b\<close>, \<^verbatim>\<open>a * b\<close> and \<^verbatim>\<open>a / 2\<close> on doubles.\<close>

fun fadd :: "jsnum \<Rightarrow> jsnum \<Rightarrow> jsnum" where
  "fadd (Fin x) (Fin y) = round_double (x + y)"
| "fadd a b = jsadd a b"

fun fmul :: "jsnum \<Rightarrow> jsnum \<Rightarrow> jsnum" where
  "fmul (Fin x) (Fin y) = round_double (x * y)"
| "fmul a b = jsmul a b"

fun fhalf :: "jsnum \<Rightarrow> jsnum" where
  "fhalf (Fin x) = round_double (x / 2)"
| "fhalf a = a"

text \<open>
  \<^verbatim>\<open>Math.floor(x)\<close>, \<^verbatim>\<open>Math.max(a, b)\<close> and \<^verbatim>\<open>Math.min(a, b)\<close>: none of them rounds, and the
  last two are \<^verbatim>\<open>NaN\<close> when an argument is.
\<close>

fun Math_floor :: "jsnum \<Rightarrow> jsnum" where
  "Math_floor (Fin x) = Fin (of_int \<lfloor>x\<rfloor>)"
| "Math_floor a = a"

definition Math_max :: "jsnum \<Rightarrow> jsnum \<Rightarrow> jsnum" where
  "Math_max a b = (if a = NaN \<or> b = NaN then NaN else if jslt a b then b else a)"

definition Math_min :: "jsnum \<Rightarrow> jsnum \<Rightarrow> jsnum" where
  "Math_min a b = (if a = NaN \<or> b = NaN then NaN else if jslt b a then b else a)"

subsection \<open>\<^verbatim>\<open>median\<close> and \<^verbatim>\<open>percentile\<close>\<close>

text \<open>
  The lists of the report hold finite doubles, fewer than \<open>2^32\<close> of them, as every
  array. The comparator \<^verbatim>\<open>(x, y) => x - y\<close> has the sign of the exact difference (the
  difference of two different doubles does not round to zero), so that
  \<^verbatim>\<open>[...arr].sort((x, y) => x - y)\<close> is the list in ascending order.

  \<^verbatim>\<open>a[idx]\<close> is the element at \<open>idx\<close> when \<open>idx\<close> is an index of \<open>a\<close>, and \<^verbatim>\<open>undefined\<close>, which
  is \<open>None\<close> here, for every other number. \<^verbatim>\<open>a.length - 1\<close> is exact.
\<close>

fun elem :: "rat list \<Rightarrow> jsnum \<Rightarrow> rat option" where
  "elem a (Fin k) =
     (if 0 \<le> k \<and> of_int \<lfloor>k\<rfloor> = k \<and> nat \<lfloor>k\<rfloor> < length a then Some (a ! nat \<lfloor>k\<rfloor>)
      else None)"
| "elem a _ = None"

definition last_index :: "rat list \<Rightarrow> jsnum" where
  "last_index a = Fin (of_nat (length a) - 1)"

text \<open>
  \<^verbatim>\<open>median(arr)\<close>; \<open>median_of\<close> is the part of the body that follows the sorting, with the
  sorted list \<open>a\<close> and \<open>mid = Math.floor(a.length / 2)\<close>.
\<close>

definition median_of :: "rat list \<Rightarrow> nat \<Rightarrow> jsnum" where
  "median_of a mid =
     (if length a mod 2 = 0 then fhalf (fadd (Fin (a ! (mid - 1))) (Fin (a ! mid)))
      else Fin (a ! mid))"

definition median :: "rat list \<Rightarrow> jsnum" where
  "median arr = (if arr = [] then Fin 0 else median_of (sort arr) (length (sort arr) div 2))"

text \<open>
  \<^verbatim>\<open>percentile(arr, p)\<close>; \<open>percentile_of\<close> is the part of the body that follows the sorting:
  \<^verbatim>\<open>a[Math.min(a.length - 1, Math.max(0, Math.floor((a.length - 1) * p)))]\<close>.
\<close>

definition percentile_of :: "rat list \<Rightarrow> jsnum \<Rightarrow> rat option" where
  "percentile_of a p =
     elem a (Math_min (last_index a) (Math_max (Fin 0) (Math_floor (fmul (last_index a) p))))"

definition percentile :: "rat list \<Rightarrow> jsnum \<Rightarrow> rat option" where
  "percentile arr p = (if arr = [] then Some 0 else percentile_of (sort arr) p)"

text \<open>
  The nearest-rank percentile, the method that the specification names: in the ascending
  list of \<open>n\<close> values, the value of the ordinal rank \<open>\<lceil>p \<cdot> n\<rceil>\<close>, the first one for \<open>p = 0\<close>.
\<close>

definition nearest_rank :: "rat list \<Rightarrow> rat \<Rightarrow> rat" where
  "nearest_rank arr p = sort arr ! (nat \<lceil>p * of_nat (length arr)\<rceil> - 1)"

section \<open>A host and rows for the examples\<close>

text \<open>
  A host whose local time is UTC, for the dates that the source builds (from two to seven
  finite fields). The days of a civil date are counted from 1970-01-01 in the proleptic
  Gregorian calendar, in years that begin with March.
\<close>

definition days_of_march_year :: "int \<Rightarrow> int \<Rightarrow> int" where
  "days_of_march_year y doy =
     (y div 400) * 146097 + (y mod 400) * 365 + (y mod 400) div 4 - (y mod 400) div 100 + doy
       - 719468"

definition days_from_civil :: "int \<Rightarrow> int \<Rightarrow> int \<Rightarrow> int" where
  "days_from_civil y m d =
     days_of_march_year (if m \<le> 2 then y - 1 else y)
       ((153 * (if 2 < m then m - 3 else m + 9) + 2) div 5 + d - 1)"

text \<open>
  Back from the days to the civil date: the day of the 400-year era, the year of the era,
  the day of the year, the month counted from March.
\<close>

definition civil_of_month :: "int \<Rightarrow> int \<Rightarrow> int \<Rightarrow> int \<times> int \<times> int" where
  "civil_of_month y doy mp =
     (if mp < 10 then (y, mp + 3, doy - (153 * mp + 2) div 5 + 1)
      else (y + 1, mp - 9, doy - (153 * mp + 2) div 5 + 1))"

definition civil_of_doy :: "int \<Rightarrow> int \<Rightarrow> int \<times> int \<times> int" where
  "civil_of_doy y doy = civil_of_month y doy ((5 * doy + 2) div 153)"

definition civil_of_yoe :: "int \<Rightarrow> int \<Rightarrow> int \<Rightarrow> int \<times> int \<times> int" where
  "civil_of_yoe era doe yoe =
     civil_of_doy (yoe + era * 400) (doe - (365 * yoe + yoe div 4 - yoe div 100))"

definition civil_of_doe :: "int \<Rightarrow> int \<Rightarrow> int \<times> int \<times> int" where
  "civil_of_doe era doe =
     civil_of_yoe era doe ((doe - doe div 1460 + doe div 36524 - doe div 146096) div 365)"

definition civil_from_days :: "int \<Rightarrow> int \<times> int \<times> int" where
  "civil_from_days z = civil_of_doe ((z + 719468) div 146097) ((z + 719468) mod 146097)"

text \<open>ToIntegerOrInfinity of a finite number: the fraction is dropped.\<close>

definition trunc :: "rat \<Rightarrow> int" where
  "trunc x = (if 0 \<le> x then \<lfloor>x\<rfloor> else \<lceil>x\<rceil>)"

fun fields :: "jsnum list \<Rightarrow> int list option" where
  "fields [] = Some []"
| "fields (Fin x # xs) = map_option ((#) (trunc x)) (fields xs)"
| "fields (_ # xs) = None"

definition field :: "int list \<Rightarrow> nat \<Rightarrow> int \<Rightarrow> int" where
  "field ks i dflt = (if i < length ks then ks ! i else dflt)"

text \<open>
  The constructor, with MakeDay, MakeTime and TimeClip of ECMA-262: a year from 0 to 99
  is of the twentieth century, months beyond the year and days beyond the month carry
  over, and a time value beyond \<open>8.64 \<cdot> 10\<^sup>1\<^sup>5\<close> is no date.
\<close>

definition full_year :: "int \<Rightarrow> int" where
  "full_year y = (if 0 \<le> y \<and> y \<le> 99 then 1900 + y else y)"

definition MakeDay :: "int \<Rightarrow> int \<Rightarrow> int \<Rightarrow> int" where
  "MakeDay y m d = days_from_civil (y + m div 12) (m mod 12 + 1) 1 + d - 1"

definition MakeTime :: "int \<Rightarrow> int \<Rightarrow> int \<Rightarrow> int \<Rightarrow> int" where
  "MakeTime h mi sec ms = ((h * 60 + mi) * 60 + sec) * 1000 + ms"

definition TimeClip :: "int \<Rightarrow> jsnum" where
  "TimeClip tv = (if \<bar>tv\<bar> \<le> 8640000000000000 then Fin (of_int tv) else NaN)"

definition utc_newDate :: "jsnum list \<Rightarrow> jsnum" where
  "utc_newDate args =
     (case fields args of
        None \<Rightarrow> NaN
      | Some ks \<Rightarrow>
          if length ks < 2 then NaN
          else TimeClip
            (MakeDay (full_year (field ks 0 0)) (field ks 1 0) (field ks 2 1) * 86400000 +
             MakeTime (field ks 3 0) (field ks 4 0) (field ks 5 0) (field ks 6 0)))"

definition utc_civil :: "((int \<times> int \<times> int) \<Rightarrow> int) \<Rightarrow> jsnum \<Rightarrow> jsnum" where
  "utc_civil sel t =
     (case t of Fin x \<Rightarrow> Fin (of_int (sel (civil_from_days (\<lfloor>x\<rfloor> div 86400000)))) | _ \<Rightarrow> NaN)"

text \<open>The decimal digits of a number, in the given width.\<close>

definition pad :: "nat \<Rightarrow> nat \<Rightarrow> jsstring" where
  "pad w n = map (\<lambda>i. 48 + (n div 10 ^ (w - 1 - i)) mod 10) [0 ..< w]"

fun iso_date :: "int \<times> int \<times> int \<Rightarrow> jsstring" where
  "iso_date (y, m, d) =
     (if 0 \<le> y \<and> y \<le> 9999 then pad 4 (nat y)
      else (if y < 0 then js ''-'' else js ''+'') @ pad 6 (nat \<bar>y\<bar>)) @
     js ''-'' @ pad 2 (nat m) @ js ''-'' @ pad 2 (nat d)"

definition iso_time :: "nat \<Rightarrow> jsstring" where
  "iso_time ms =
     pad 2 (ms div 3600000) @ js '':'' @ pad 2 (ms div 60000 mod 60) @ js '':'' @
     pad 2 (ms div 1000 mod 60) @ js ''.'' @ pad 3 (ms mod 1000)"

definition utc_toISOString :: "int \<Rightarrow> jsstring" where
  "utc_toISOString tv =
     iso_date (civil_from_days (tv div 86400000)) @ js ''T'' @
     iso_time (nat (tv mod 86400000)) @ js ''Z''"

definition utcHost :: host where
  "utcHost = \<lparr>
     newDate = utc_newDate,
     getFullYear = utc_civil (\<lambda>(y, m, d). y),
     getMonth = utc_civil (\<lambda>(y, m, d). m - 1),
     getDate = utc_civil (\<lambda>(y, m, d). d),
     toISOString = utc_toISOString
   \<rparr>"

text \<open>
  The three records of the end-to-end scenario of the specification, as
  \<^verbatim>\<open>mapRawRowsToRows\<close> would build them: paid on the first days of January 2024, the
  first one paid out on the first of February.
\<close>

definition row_a :: Row where
  "row_a = \<lparr>
     sku = js ''A-1'', name = js ''100 Lot Master Ball Holo'', category = js ''cards'',
     payoutStatus = js ''done'', soldQty = Fin 1, gmvUsd = Fin 80, payoutCny = Fin 500,
     paidAt = Some 1704067200000, payoutAt = Some 1706745600000,
     titleGroup = classifyTitleGroup (js ''100 Lot Master Ball Holo'')
   \<rparr>"

definition row_b :: Row where
  "row_b = \<lparr>
     sku = js ''B-2'', name = js ''RR Only pack'', category = js ''cards'',
     payoutStatus = js ''open'', soldQty = Fin 1, gmvUsd = Fin 12, payoutCny = Fin 0,
     paidAt = Some 1704153600000, payoutAt = None,
     titleGroup = classifyTitleGroup (js ''RR Only pack'')
   \<rparr>"

definition row_c :: Row where
  "row_c = \<lparr>
     sku = js ''C-3'', name = js ''mystery bundle'', category = js ''cards'',
     payoutStatus = js ''done'', soldQty = Fin 2, gmvUsd = Fin 30, payoutCny = Fin 150,
     paidAt = Some 1704240000000, payoutAt = Some 1709251200000,
     titleGroup = classifyTitleGroup (js ''mystery bundle'')
   \<rparr>"

section \<open>Evaluation\<close>

text \<open>The literals of the source are different texts when they are spelled differently.\<close>

lemma js_eq_iff [simp]: "js s = js t \<longleftrightarrow> s = t"
proof -
  have "inj (of_char :: char \<Rightarrow> nat)"
    by (rule inj_of_char)
  then have "inj (map (of_char :: char \<Rightarrow> nat))"
    by simp
  then show ?thesis
    unfolding js_def by (auto dest: injD)
qed

text \<open>The floor of a fraction of two numerals, for \<open>Math_round\<close>.\<close>

lemma floor_numeral_div [simp]: "\<lfloor>numeral a / numeral b :: rat\<rfloor> = numeral a div numeral b"
  using floor_divide_of_int_eq [of "numeral a" "numeral b", where ?'a = rat] by simp

lemma floor_one_div [simp]: "\<lfloor>1 / numeral b :: rat\<rfloor> = 1 div numeral b"
  using floor_divide_of_int_eq [of 1 "numeral b", where ?'a = rat] by simp

lemma ceiling_numeral_div [simp]:
  "\<lceil>numeral a / numeral b :: rat\<rceil> = - ((- numeral a) div numeral b)"
  using floor_divide_of_int_eq [of "- numeral a" "numeral b", where ?'a = rat]
  by (simp add: ceiling_def)

lemmas char_class_defs =
  is_space_def is_digit_def is_upper_def is_lower_def is_word_def canon_def is_hex_def

lemmas regex_defs =
  test_def match1_def exec_def seqs_def lit_def wordre_def rest_def
  word_before_def word_after_def star.simps

lemmas number_defs =
  Number_def StrUnsignedNumeric_def StrUnsignedDecimalLiteral_def NonDecimalIntegerLiteral_def
  ExponentPart_def SignedInteger_def digits_val_def digit_val_def of_literal_def trim_def

lemmas lot_defs =
  parseLotCountFromTitle_def lot_leading_def lot_trailing_def lot_numeral_def normalizeTitle_def

section \<open>The matcher and the numbers: examples\<close>

text \<open>
  The numeral is matched greedily and given back digit by digit; \<^verbatim>\<open>\b\<close> keeps \<^verbatim>\<open>rr\<close>
  out of \<^verbatim>\<open>RRR\<close>; white space between \<^verbatim>\<open>master\<close> and \<^verbatim>\<open>ball\<close> is optional.
\<close>

lemma matcher_examples:
  "match1 lot_leading (js ''x 1.503 lot'') = Some (js ''503'')"
  "match1 lot_leading (js ''12.345lot'') = Some (js ''345'')"
  "match1 lot_trailing (js ''lot1.505'') = Some (js ''1'')"
  "match1 lot_trailing (js ''LOT  7.25 x'') = Some (js ''7.25'')"
  "match1 lot_leading (js ''5 lots'') = None"
  "\<not> test (wordre ''rr'') (js ''RRR'')"
  "test (wordre ''rr'') (js ''a rr+RRR'')"
  "test (seqs [WordB, lit ''master'', Star Space, lit ''ball'', WordB]) (js ''MasterBall'')"
  "\<not> test (seqs [WordB, lit ''master'', Star Space, lit ''ball'', WordB]) (js ''Grandmaster Ball'')"
  by (simp_all add: lot_defs regex_defs char_class_defs js_def)

lemma Number_examples:
  "Number (js '' 12.50 '') = Fin (25 / 2)" "Number (js ''$1234.5'') = NaN"
  "Number (js ''1e3'') = Fin 1000" "Number (js ''.5'') = Fin (1 / 2)" "Number (js ''5.'') = Fin 5"
  "Number (js ''.'') = NaN" "Number (js ''-Infinity'') = NInf" "Number (js ''0x1F'') = Fin 31"
  "Number (js ''12abc'') = NaN" "Number [] = Fin 0"
  by (simp_all add: number_defs char_class_defs js_def)

lemma hashStr_example: "hashStr (js ''hello'') = js ''m3bicr''"
  by (simp add: hashStr_def toString36.simps digit36_def js_def)

lemma normalizeTitle_example:
  "normalizeTitle (js ''  100   Lot Master Ball  '') = js ''100 Lot Master Ball''"
  by (simp add: normalizeTitle_def trim_def js_def is_space_def)

section \<open>The title classifier: first match wins\<close>

text \<open>Each flag of \<open>has\<close> by itself, so that reading one flag evaluates its patterns only.\<close>

lemma has_flags:
  "has_kfc (has t) = test (wordre ''kfc'') t"
  "has_sealed (has t) = test (wordre ''sealed'') t"
  "has_tagTeam (has t) = test (seqs [WordB, lit ''tag'', Star Space, lit ''team'', WordB]) t"
  "has_trainer (has t) =
     (test (wordre ''trainer'') t \<or> test (wordre ''supporter'') t \<or> test (wordre ''item'') t)"
  "has_ocd (has t) = test (wordre ''ocd'') t"
  "has_masterBall (has t) =
     test (seqs [WordB, lit ''master'', Star Space, lit ''ball'', WordB]) t"
  "has_logoReverse (has t) = (test (wordre ''logo'') t \<and> test (wordre ''reverse'') t)"
  "has_ballHolo (has t) = (test (wordre ''ball'') t \<and> test (wordre ''holo'') t)"
  "has_mix (has t) = test (wordre ''mix'') t"
  "has_ar (has t) = test (wordre ''ar'') t"
  "has_chr (has t) = test (wordre ''chr'') t"
  "has_sr (has t) = test (wordre ''sr'') t"
  "has_hr (has t) = test (wordre ''hr'') t"
  "has_rrr (has t) = test (wordre ''rrr'') t"
  "has_rr (has t) = test (wordre ''rr'') t"
  "has_vmax (has t) = test (wordre ''vmax'') t"
  "has_japanese (has t) = test (wordre ''japanese'') t"
  "has_otherRarity (has t) =
     (test (wordre ''rrrr'') t \<or> test (wordre ''ur'') t \<or> test (wordre ''ssr'') t \<or>
      test (wordre ''sar'') t \<or> test (wordre ''csr'') t \<or> test (wordre ''ace'') t \<or>
      test (wordre ''ex'') t \<or> test (wordre ''gold'') t \<or> test (wordre ''secret'') t)"
  by (simp_all add: has_def)

text \<open>The loop over the rules answers the name of the first rule whose test holds.\<close>

lemma first_rule_append:
  "\<forall>r \<in> set rs. \<not> snd r h \<Longrightarrow> snd r' h \<Longrightarrow> first_rule (rs @ r' # rs') h = fst r'"
  by (induction rs) auto

lemma first_rule_none: "\<forall>r \<in> set rs. \<not> snd r h \<Longrightarrow> first_rule rs h = ''Other''"
  by (induction rs) auto

lemma first_rule_name: "first_rule rs h \<in> insert ''Other'' (fst ` set rs)"
  by (induction rs) auto

lemma classify_normalized:
  "normalizeTitle t = t' \<Longrightarrow> classifyTitleGroup t = js (first_rule rules (has t'))"
  by (simp add: classifyTitleGroup_def)

lemmas title_eval = has_flags regex_defs char_class_defs js_def normalizeTitle_def trim_def

text \<open>
  Claim C1, as stated: every title whose normalized text contains both \<^verbatim>\<open>Master Ball\<close>
  and \<^verbatim>\<open>Ball Holo\<close> is classified \<^verbatim>\<open>Master Ball\<close>. Five rules stand before the rule
  \<^verbatim>\<open>Master Ball\<close>, and a title that one of them matches gets its name:
  \<^verbatim>\<open>Sealed Master Ball Holo\<close> is classified \<^verbatim>\<open>Sealed\<close>.
\<close>

theorem C1_sealed_master_ball_holo:
  "\<not> (\<forall>t. str_includes (normalizeTitle t) (js ''Master Ball'') \<and> str_includes (normalizeTitle t) (js ''Ball Holo'')
         \<longrightarrow> classifyTitleGroup t = js ''Master Ball'')"
proof
  let ?t = "js ''Sealed Master Ball Holo''"
  assume all: "\<forall>t. str_includes (normalizeTitle t) (js ''Master Ball'') \<and>
    str_includes (normalizeTitle t) (js ''Ball Holo'') \<longrightarrow> classifyTitleGroup t = js ''Master Ball''"
  have n: "normalizeTitle ?t = ?t"
    by (simp add: normalizeTitle_def trim_def js_def is_space_def)
  have "str_includes ?t (js ''Master Ball'')" and "str_includes ?t (js ''Ball Holo'')"
    by (simp_all add: js_def)
  with all n have "classifyTitleGroup ?t = js ''Master Ball''"
    by simp
  moreover have "\<not> has_kfc (has ?t)" and "has_sealed (has ?t)"
    by (simp_all add: title_eval)
  then have "classifyTitleGroup ?t = js ''Sealed''"
    by (simp add: classify_normalized [OF n] rules_def)
  ultimately show False
    by simp
qed

text \<open>
  Claim C1, amended: every title whose normalized text matches the pattern of
  \<^verbatim>\<open>Master Ball\<close> and none of the patterns of the five rules before it (\<^verbatim>\<open>KFC Pack\<close>,
  \<^verbatim>\<open>Sealed\<close>, \<^verbatim>\<open>TAG TEAM\<close>, \<^verbatim>\<open>Trainer Item / Supporter\<close>, \<^verbatim>\<open>OCD\<close>) is classified
  \<^verbatim>\<open>Master Ball\<close> and not \<^verbatim>\<open>Ball Holo\<close>, whether the test of \<^verbatim>\<open>Ball Holo\<close> holds or not:
  the rules are tried from top to bottom, and the first test that holds gives the label.
\<close>

theorem C1_master_ball_before_ball_holo:
  assumes "has_masterBall (has (normalizeTitle t))"
    and "\<not> has_kfc (has (normalizeTitle t))"
    and "\<not> has_sealed (has (normalizeTitle t))"
    and "\<not> has_tagTeam (has (normalizeTitle t))"
    and "\<not> has_trainer (has (normalizeTitle t))"
    and "\<not> has_ocd (has (normalizeTitle t))"
  shows "classifyTitleGroup t = js ''Master Ball'' \<and> classifyTitleGroup t \<noteq> js ''Ball Holo''"
  using assms by (simp add: classifyTitleGroup_def rules_def)

theorem C1_master_ball_holo_witness:
  "has_masterBall (has (normalizeTitle (js ''Master Ball Holo''))) \<and>
   has_ballHolo (has (normalizeTitle (js ''Master Ball Holo''))) \<and>
   \<not> has_kfc (has (normalizeTitle (js ''Master Ball Holo''))) \<and>
   \<not> has_sealed (has (normalizeTitle (js ''Master Ball Holo''))) \<and>
   \<not> has_tagTeam (has (normalizeTitle (js ''Master Ball Holo''))) \<and>
   \<not> has_trainer (has (normalizeTitle (js ''Master Ball Holo''))) \<and>
   \<not> has_ocd (has (normalizeTitle (js ''Master Ball Holo''))) \<and>
   classifyTitleGroup (js ''Master Ball Holo'') = js ''Master Ball'' \<and>
   classifyTitleGroup (js ''Master Ball Holo'') \<noteq> js ''Ball Holo''"
proof -
  let ?t = "js ''Master Ball Holo''"
  have n: "normalizeTitle ?t = ?t"
    by (simp add: normalizeTitle_def trim_def js_def is_space_def)
  have flags: "has_masterBall (has ?t)" "has_ballHolo (has ?t)" "\<not> has_kfc (has ?t)"
    "\<not> has_sealed (has ?t)" "\<not> has_tagTeam (has ?t)" "\<not> has_trainer (has ?t)"
    "\<not> has_ocd (has ?t)"
    by (simp_all add: title_eval)
  from flags show ?thesis
    using C1_master_ball_before_ball_holo [of ?t] by (simp add: n)
qed

section \<open>The labels of the classifier and the table of defaults\<close>

lemma COST_DEFAULTS_all_labels:
  "list_all (\<lambda>n. case COST_DEFAULTS (js n) of None \<Rightarrow> False
      | Some v \<Rightarrow> isFinite v \<and> costPerLotOfGroup COST_DEFAULTS (js n) = v)
     (''Other'' # map fst rules)"
  by (simp add: rules_def COST_DEFAULTS_def COST_DEFAULTS_list_def costPerLotOfGroup_def)

lemma COST_DEFAULTS_labels:
  assumes "n \<in> insert ''Other'' (fst ` set rules)"
  shows "\<exists>v. COST_DEFAULTS (js n) = Some v \<and> isFinite v \<and>
    costPerLotOfGroup COST_DEFAULTS (js n) = v"
proof -
  from assms have "n \<in> set (''Other'' # map fst rules)"
    by simp
  with COST_DEFAULTS_all_labels
  have "case COST_DEFAULTS (js n) of None \<Rightarrow> False
      | Some v \<Rightarrow> isFinite v \<and> costPerLotOfGroup COST_DEFAULTS (js n) = v"
    unfolding list_all_iff by blast
  then show ?thesis
    by (cases "COST_DEFAULTS (js n)") simp_all
qed

text \<open>
  Claim C10: for every title, the label that \<open>classifyTitleGroup\<close> of src/app/page.tsx
  returns is a key of \<open>COST_DEFAULTS\<close> of the same file; so against the untouched table
  of defaults the cost of the label's category is the finite value of its entry, and the
  branch for an absent category is not taken.
\<close>

theorem C10_label_has_default:
  "classifyTitleGroup t \<in> dom COST_DEFAULTS \<and>
   (\<exists>v. COST_DEFAULTS (classifyTitleGroup t) = Some v \<and> isFinite v \<and>
        costPerLotOfGroup COST_DEFAULTS (classifyTitleGroup t) = v)"
proof -
  have "first_rule rules (has (normalizeTitle t)) \<in> insert ''Other'' (fst ` set rules)"
    by (rule first_rule_name)
  then have "\<exists>v. COST_DEFAULTS (classifyTitleGroup t) = Some v \<and> isFinite v \<and>
      costPerLotOfGroup COST_DEFAULTS (classifyTitleGroup t) = v"
    unfolding classifyTitleGroup_def Let_def by (rule COST_DEFAULTS_labels)
  then show ?thesis
    by auto
qed

section \<open>The lot count of a title: values\<close>

lemmas lot_eval = lot_defs number_defs regex_defs char_class_defs js_def

lemma lot_137: "parseLotCountFromTitle (js ''137 Lot Bundle'') = Fin 137"
  by (simp add: lot_eval)

lemma lot_42: "parseLotCountFromTitle (js ''Lot 42'') = Fin 42"
  by (simp add: lot_eval)

lemma lot_150: "parseLotCountFromTitle (js ''1.50 Lot'') = Fin 150"
  by (simp add: lot_eval)

lemma lot_plain: "parseLotCountFromTitle (js ''plain title, no lot'') = Fin 1"
  by (simp add: lot_eval)

lemma lot_minus_3: "parseLotCountFromTitle (js ''-3 Lot'') = Fin 3"
  by (simp add: lot_eval)

lemma lot_zero: "parseLotCountFromTitle (js ''0 Lot'') = Fin 1"
  by (simp add: lot_eval)

text \<open>
  Claim C2, as stated: the lot count is 137 for \<^verbatim>\<open>137 Lot Bundle\<close>, 42 for \<^verbatim>\<open>Lot 42\<close>,
  150 for \<^verbatim>\<open>1.50 Lot\<close>, 1 for \<^verbatim>\<open>plain title, no lot\<close> and 1 for \<^verbatim>\<open>-3 Lot\<close>. The last
  value is not what the code computes: neither pattern reads a sign, so that the numeral
  matched in \<^verbatim>\<open>-3 Lot\<close> is \<^verbatim>\<open>3\<close>.
\<close>

theorem C2_minus_3_lot_is_not_1: "parseLotCountFromTitle (js ''-3 Lot'') \<noteq> Fin 1"
  by (simp add: lot_eval)

text \<open>
  Claim C2, amended: the lot count is 137 for \<^verbatim>\<open>137 Lot Bundle\<close>, 42 for \<^verbatim>\<open>Lot 42\<close>,
  150 for \<^verbatim>\<open>1.50 Lot\<close> (the correction of a decimal typo), 1 for
  \<^verbatim>\<open>plain title, no lot\<close> (no match), and 3 for \<^verbatim>\<open>-3 Lot\<close>, where the numeral matched
  is the unsigned \<^verbatim>\<open>3\<close>; a numeral that is not positive, as in \<^verbatim>\<open>0 Lot\<close>, gives 1.
\<close>

theorem C2_lot_values:
  "parseLotCountFromTitle (js ''137 Lot Bundle'') = Fin 137 \<and>
   parseLotCountFromTitle (js ''Lot 42'') = Fin 42 \<and>
   parseLotCountFromTitle (js ''1.50 Lot'') = Fin 150 \<and>
   parseLotCountFromTitle (js ''plain title, no lot'') = Fin 1 \<and>
   parseLotCountFromTitle (js ''-3 Lot'') = Fin 3 \<and>
   parseLotCountFromTitle (js ''0 Lot'') = Fin 1"
  using lot_137 lot_42 lot_150 lot_plain lot_minus_3 lot_zero by simp

text \<open>
  Claim C3: for every title the lot count is an integer that is at least 1. The code
  breaks this where the numeral is between 0.01 and 0.09: it is positive, so the guard
  \<^verbatim>\<open>n <= 0\<close> lets it pass, a hundred times it is below 10, so the correction of the
  typo does not apply, and \<^verbatim>\<open>Math.round(n)\<close> is 0.
\<close>

theorem C3_lot_count_zero: "parseLotCountFromTitle (js ''0.05 Lot'') = Fin 0"
  by (simp add: lot_eval)

section \<open>The effective unit cost and the profit\<close>

lemma classify_row_a: "classifyTitleGroup (js ''100 Lot Master Ball Holo'') = js ''Master Ball''"
proof -
  let ?t = "js ''100 Lot Master Ball Holo''"
  have n: "normalizeTitle ?t = ?t"
    by (simp add: normalizeTitle_def trim_def js_def is_space_def)
  have "has_masterBall (has ?t)" "\<not> has_kfc (has ?t)" "\<not> has_sealed (has ?t)"
    "\<not> has_tagTeam (has ?t)" "\<not> has_trainer (has ?t)" "\<not> has_ocd (has ?t)"
    by (simp_all add: title_eval)
  then show ?thesis
    by (simp add: classify_normalized [OF n] rules_def)
qed

lemma lot_100: "parseLotCountFromTitle (js ''100 Lot Master Ball Holo'') = Fin 100"
  by (simp add: lot_eval)

lemma costPerLotOfGroup_cases:
  "cm g = Some c \<Longrightarrow> isFinite c \<Longrightarrow> costPerLotOfGroup cm g = c"
  "cm g = Some c \<Longrightarrow> \<not> isFinite c \<Longrightarrow> costPerLotOfGroup cm g = Fin 0"
  "cm g = None \<Longrightarrow> costPerLotOfGroup cm g = Fin 0"
  by (simp_all add: costPerLotOfGroup_def)

lemma costPerLotForRow_cases:
  "ov (rowId H r) = Some v \<Longrightarrow> isFinite v \<Longrightarrow> costPerLotForRow H cm ov r = v"
  "ov (rowId H r) = Some v \<Longrightarrow> \<not> isFinite v \<Longrightarrow>
     costPerLotForRow H cm ov r = costPerLotOfGroup cm (titleGroup r)"
  "ov (rowId H r) = None \<Longrightarrow> costPerLotForRow H cm ov r = costPerLotOfGroup cm (titleGroup r)"
  by (simp_all add: costPerLotForRow_def)

text \<open>
  Claim C4: for every record and every pair of cost tables, the effective unit cost
  \<open>costPerLotForRow\<close> is the override of the record when there is one and it is finite;
  otherwise it is the default of the category \<open>titleGroup\<close> of the record
  (\<open>costPerLotOfGroup\<close>: the entry of the table when it is a finite number), which is 0
  when the table has no entry for the category.
\<close>

theorem C4_effective_unit_cost:
  "(\<forall>v. ov (rowId H r) = Some v \<and> isFinite v \<longrightarrow> costPerLotForRow H cm ov r = v) \<and>
   ((\<forall>v. ov (rowId H r) = Some v \<longrightarrow> \<not> isFinite v) \<longrightarrow>
      costPerLotForRow H cm ov r = costPerLotOfGroup cm (titleGroup r)) \<and>
   (\<forall>c. cm (titleGroup r) = Some c \<and> isFinite c \<longrightarrow> costPerLotOfGroup cm (titleGroup r) = c) \<and>
   (cm (titleGroup r) = None \<longrightarrow> costPerLotOfGroup cm (titleGroup r) = Fin 0)"
proof (intro conjI allI impI)
  fix v
  assume "ov (rowId H r) = Some v \<and> isFinite v"
  then show "costPerLotForRow H cm ov r = v"
    by (simp add: costPerLotForRow_cases)
next
  assume none: "\<forall>v. ov (rowId H r) = Some v \<longrightarrow> \<not> isFinite v"
  show "costPerLotForRow H cm ov r = costPerLotOfGroup cm (titleGroup r)"
  proof (cases "ov (rowId H r)")
    case None
    then show ?thesis
      by (rule costPerLotForRow_cases)
  next
    case (Some v)
    with none have "\<not> isFinite v"
      by simp
    with Some show ?thesis
      by (rule costPerLotForRow_cases)
  qed
next
  fix c
  assume "cm (titleGroup r) = Some c \<and> isFinite c"
  then show "costPerLotOfGroup cm (titleGroup r) = c"
    by (simp add: costPerLotOfGroup_cases)
next
  assume "cm (titleGroup r) = None"
  then show "costPerLotOfGroup cm (titleGroup r) = Fin 0"
    by (rule costPerLotOfGroup_cases)
qed

lemma titleGroup_row_a: "titleGroup row_a = js ''Master Ball''"
  by (simp add: row_a_def classify_row_a)

lemma master_ball_default: "COST_DEFAULTS (js ''Master Ball'') = Some (Fin (7 / 10))"
  by (simp add: COST_DEFAULTS_def COST_DEFAULTS_list_def)

theorem C4_effective_unit_cost_witness:
  "costPerLotForRow utcHost COST_DEFAULTS [rowId utcHost row_a \<mapsto> Fin 5] row_a = Fin 5 \<and>
   costPerLotForRow utcHost COST_DEFAULTS [rowId utcHost row_a \<mapsto> NaN] row_a = Fin (7 / 10) \<and>
   costPerLotForRow utcHost COST_DEFAULTS Map.empty row_a = Fin (7 / 10) \<and>
   costPerLotForRow utcHost Map.empty Map.empty row_a = Fin 0"
  using C4_effective_unit_cost [of "[rowId utcHost row_a \<mapsto> Fin 5]" utcHost row_a COST_DEFAULTS]
    C4_effective_unit_cost [of "[rowId utcHost row_a \<mapsto> NaN]" utcHost row_a COST_DEFAULTS]
    C4_effective_unit_cost [of Map.empty utcHost row_a COST_DEFAULTS]
    C4_effective_unit_cost [of Map.empty utcHost row_a Map.empty]
  by (simp add: titleGroup_row_a master_ball_default)

lemma profit_of_no_payout: "payoutCny r = Fin 0 \<Longrightarrow> profitOf H cm ov r = Fin 0"
  by (simp add: profitOf_def)

lemma profit_of_payout:
  assumes "jslt (Fin 0) (payoutCny r)"
  shows "profitOf H cm ov r =
    jssub (payoutCny r) (jsmul (costPerLotForRow H cm ov r) (lotCountOf r))"
proof -
  from assms have "truthy (payoutCny r)"
    by (cases "payoutCny r") simp_all
  then show ?thesis
    by (simp add: profitOf_def totalCostOf_def)
qed

lemma profit_end_to_end:
  assumes n: "name r = js ''100 Lot Master Ball Holo''" and p: "payoutCny r = Fin 500"
    and g: "titleGroup r = classifyTitleGroup (name r)"
    and d: "cm (js ''Master Ball'') = Some (Fin (7 / 10))" and o: "ov (rowId H r) = None"
  shows "lotCountOf r = Fin 100 \<and> totalCostOf H cm ov r = Fin 70 \<and>
    profitOf H cm ov r = Fin 430"
proof -
  from n have lot: "lotCountOf r = Fin 100"
    by (simp only: lotCountOf_def lot_100)
  from g n have g': "titleGroup r = js ''Master Ball''"
    by (simp only: classify_row_a)
  from o have "costPerLotForRow H cm ov r = costPerLotOfGroup cm (titleGroup r)"
    by (rule costPerLotForRow_cases)
  also from d have "\<dots> = Fin (7 / 10)"
    unfolding g' by (rule costPerLotOfGroup_cases) simp
  finally have unit: "costPerLotForRow H cm ov r = Fin (7 / 10)" .
  have cost: "totalCostOf H cm ov r = Fin 70"
    by (simp add: totalCostOf_def unit lot)
  have "profitOf H cm ov r = Fin 430"
    by (simp add: profitOf_def p cost jssub_def)
  with lot cost show ?thesis
    by simp
qed

text \<open>
  Claim C5: a record whose payout is 0 has the profit 0, whatever the costs, the overrides
  and the lot count are; a record whose payout is above 0 has the profit payout minus
  effective unit cost times lot count. For the title \<^verbatim>\<open>100 Lot Master Ball Holo\<close>, the
  payout 500 and the default 0.7 of \<^verbatim>\<open>Master Ball\<close>: lot count 100, total cost 70, profit
  430.
\<close>

theorem C5_profit:
  "(payoutCny r = Fin 0 \<longrightarrow> profitOf H cm ov r = Fin 0) \<and>
   (jslt (Fin 0) (payoutCny r) \<longrightarrow>
      profitOf H cm ov r =
        jssub (payoutCny r) (jsmul (costPerLotForRow H cm ov r) (lotCountOf r))) \<and>
   (name r = js ''100 Lot Master Ball Holo'' \<and> payoutCny r = Fin 500 \<and>
    titleGroup r = classifyTitleGroup (name r) \<and>
    cm (js ''Master Ball'') = Some (Fin (7 / 10)) \<and> ov (rowId H r) = None \<longrightarrow>
      lotCountOf r = Fin 100 \<and> totalCostOf H cm ov r = Fin 70 \<and> profitOf H cm ov r = Fin 430)"
  using profit_of_no_payout [of r H cm ov] profit_of_payout [of r H cm ov]
    profit_end_to_end [of r cm ov H]
  by blast

theorem C5_profit_witness:
  "profitOf utcHost COST_DEFAULTS Map.empty row_a = Fin 430 \<and>
   profitOf utcHost COST_DEFAULTS Map.empty row_b = Fin 0 \<and>
   profitOf utcHost COST_DEFAULTS [rowId utcHost row_a \<mapsto> Fin 1] row_a =
     jssub (Fin 500) (jsmul (Fin 1) (lotCountOf row_a))"
proof -
  have a: "name row_a = js ''100 Lot Master Ball Holo''" "payoutCny row_a = Fin 500"
    "titleGroup row_a = classifyTitleGroup (name row_a)"
    by (simp_all add: row_a_def)
  have b: "payoutCny row_b = Fin 0"
    by (simp add: row_b_def)
  have c: "costPerLotForRow utcHost COST_DEFAULTS [rowId utcHost row_a \<mapsto> Fin 1] row_a = Fin 1"
    by (simp add: costPerLotForRow_def)
  have "profitOf utcHost COST_DEFAULTS Map.empty row_a = Fin 430"
    using C5_profit [of row_a utcHost COST_DEFAULTS Map.empty, THEN conjunct2, THEN conjunct2]
      a master_ball_default
    by simp
  moreover have "profitOf utcHost COST_DEFAULTS Map.empty row_b = Fin 0"
    using C5_profit [of row_b utcHost COST_DEFAULTS Map.empty, THEN conjunct1] b by simp
  moreover have "profitOf utcHost COST_DEFAULTS [rowId utcHost row_a \<mapsto> Fin 1] row_a =
      jssub (Fin 500) (jsmul (Fin 1) (lotCountOf row_a))"
    using C5_profit [of row_a utcHost COST_DEFAULTS "[rowId utcHost row_a \<mapsto> Fin 1]",
        THEN conjunct2, THEN conjunct1]
    by (simp only: a(2) c jslt.simps)
  ultimately show ?thesis
    by simp
qed

section \<open>The two date ranges\<close>

text \<open>A rendering completes when the ends of both ranges are empty or dates.\<close>

lemma filterByDate_returns:
  "valid_end H e \<Longrightarrow> \<exists>rows. filterByDate H input getDt s e = Inr rows"
  by (cases "parseYmd H e") (simp_all add: valid_end_def filterByDate_def Let_def)

lemma page_kpi_returns:
  assumes "valid_end H (paidEndYmd f)" and "valid_end H (payoutEndYmd f)"
  shows "\<exists>paid payout. paidRows H baseRows f = Inr paid \<and> payoutRows H baseRows f = Inr payout \<and>
    page_kpi H cm ov baseRows f = Inr (kpi_of H cm ov paid payout)"
proof -
  from assms(1) obtain paid where "paidRows H baseRows f = Inr paid"
    unfolding paidRows_def using filterByDate_returns by blast
  moreover from assms(2) obtain payout where "payoutRows H baseRows f = Inr payout"
    unfolding payoutRows_def using filterByDate_returns by blast
  ultimately show ?thesis
    by (simp add: page_kpi_def)
qed

lemma paidRows_cong:
  "paidStartYmd f1 = paidStartYmd f2 \<Longrightarrow> paidEndYmd f1 = paidEndYmd f2 \<Longrightarrow>
     paidRows H baseRows f1 = paidRows H baseRows f2"
  by (simp add: paidRows_def)

lemma payoutRows_cong:
  "payoutStartYmd f1 = payoutStartYmd f2 \<Longrightarrow> payoutEndYmd f1 = payoutEndYmd f2 \<Longrightarrow>
     payoutRows H baseRows f1 = payoutRows H baseRows f2"
  by (simp add: payoutRows_def)

lemma filterByDate_throws:
  "\<not> valid_end H e \<Longrightarrow> filterByDate H input getDt s e = Inl TypeError"
  by (cases "parseYmd H e") (auto simp: valid_end_def filterByDate_def Let_def)

lemma page_kpi_completes_iff:
  "(\<exists>k. page_kpi H cm ov baseRows f = Inr k) \<longleftrightarrow>
     valid_end H (paidEndYmd f) \<and> valid_end H (payoutEndYmd f)"
proof
  assume "\<exists>k. page_kpi H cm ov baseRows f = Inr k"
  then obtain k where k: "page_kpi H cm ov baseRows f = Inr k" ..
  show "valid_end H (paidEndYmd f) \<and> valid_end H (payoutEndYmd f)"
  proof (rule ccontr)
    assume "\<not> (valid_end H (paidEndYmd f) \<and> valid_end H (payoutEndYmd f))"
    then consider "\<not> valid_end H (paidEndYmd f)"
      | "valid_end H (paidEndYmd f)" "\<not> valid_end H (payoutEndYmd f)"
      by blast
    then have "page_kpi H cm ov baseRows f = Inl TypeError"
    proof cases
      case 1
      then show ?thesis
        by (simp add: page_kpi_def paidRows_def filterByDate_throws)
    next
      case 2
      from 2(1) obtain paid where "paidRows H baseRows f = Inr paid"
        unfolding paidRows_def using filterByDate_returns by blast
      with 2(2) show ?thesis
        by (simp add: page_kpi_def payoutRows_def filterByDate_throws)
    qed
    with k show False
      by simp
  qed
next
  assume "valid_end H (paidEndYmd f) \<and> valid_end H (payoutEndYmd f)"
  then show "\<exists>k. page_kpi H cm ov baseRows f = Inr k"
    using page_kpi_returns [of H f baseRows cm ov] by blast
qed

text \<open>
  Claim C6: for every set of records and every choice of the two date ranges, the GMV
  total (over the rows in the paid range) is the same in two renderings that differ in
  the payout range only, and the payout and profit totals (over the rows in the payout
  range) are the same in two renderings that differ in the paid range only. The ends of
  the ranges are what the date inputs deliver, so both renderings complete.
\<close>

theorem C6_date_ranges_independent:
  assumes "valid_end H (paidEndYmd f1)" and "valid_end H (payoutEndYmd f1)"
    and "valid_end H (paidEndYmd f2)" and "valid_end H (payoutEndYmd f2)"
  shows "\<exists>k1 k2.
    page_kpi H cm ov baseRows f1 = Inr k1 \<and> page_kpi H cm ov baseRows f2 = Inr k2 \<and>
    (paidStartYmd f1 = paidStartYmd f2 \<and> paidEndYmd f1 = paidEndYmd f2 \<longrightarrow>
       kpi_gmvUsd k1 = kpi_gmvUsd k2) \<and>
    (payoutStartYmd f1 = payoutStartYmd f2 \<and> payoutEndYmd f1 = payoutEndYmd f2 \<longrightarrow>
       kpi_payoutCny k1 = kpi_payoutCny k2 \<and> kpi_totalProfit k1 = kpi_totalProfit k2 \<and>
       kpi_totalCost k1 = kpi_totalCost k2)"
proof -
  from assms(1,2) obtain paid1 payout1 where
    r1: "paidRows H baseRows f1 = Inr paid1" "payoutRows H baseRows f1 = Inr payout1"
      "page_kpi H cm ov baseRows f1 = Inr (kpi_of H cm ov paid1 payout1)"
    using page_kpi_returns by blast
  from assms(3,4) obtain paid2 payout2 where
    r2: "paidRows H baseRows f2 = Inr paid2" "payoutRows H baseRows f2 = Inr payout2"
      "page_kpi H cm ov baseRows f2 = Inr (kpi_of H cm ov paid2 payout2)"
    using page_kpi_returns by blast
  have paid: "paid1 = paid2"
    if "paidStartYmd f1 = paidStartYmd f2 \<and> paidEndYmd f1 = paidEndYmd f2"
    using that r1(1) r2(1) paidRows_cong [of f1 f2 H baseRows] by simp
  have payout: "payout1 = payout2"
    if "payoutStartYmd f1 = payoutStartYmd f2 \<and> payoutEndYmd f1 = payoutEndYmd f2"
    using that r1(2) r2(2) payoutRows_cong [of f1 f2 H baseRows] by simp
  show ?thesis
    using r1(3) r2(3) paid payout by (auto simp: kpi_of_def)
qed

lemma classify_row_b: "classifyTitleGroup (js ''RR Only pack'') = js ''RR Only''"
proof -
  let ?t = "js ''RR Only pack''"
  have n: "normalizeTitle ?t = ?t"
    by (simp add: normalizeTitle_def trim_def js_def is_space_def)
  have "\<not> has_kfc (has ?t)" "\<not> has_sealed (has ?t)" "\<not> has_tagTeam (has ?t)"
    "\<not> has_trainer (has ?t)" "\<not> has_ocd (has ?t)" "\<not> has_masterBall (has ?t)"
    "\<not> has_logoReverse (has ?t)" "\<not> has_ballHolo (has ?t)" "\<not> has_mix (has ?t)"
    "\<not> has_ar (has ?t)" "\<not> has_chr (has ?t)" "\<not> has_sr (has ?t)" "\<not> has_hr (has ?t)"
    "\<not> has_japanese (has ?t)" "\<not> has_rrr (has ?t)" "has_rr (has ?t)"
    "\<not> has_otherRarity (has ?t)"
    by (simp_all add: title_eval)
  then show ?thesis
    by (simp add: classify_normalized [OF n] rules_def)
qed

lemma classify_row_c: "classifyTitleGroup (js ''mystery bundle'') = js ''Other''"
proof -
  let ?t = "js ''mystery bundle''"
  have n: "normalizeTitle ?t = ?t"
    by (simp add: normalizeTitle_def trim_def js_def is_space_def)
  have "\<not> has_kfc (has ?t)" "\<not> has_sealed (has ?t)" "\<not> has_tagTeam (has ?t)"
    "\<not> has_trainer (has ?t)" "\<not> has_ocd (has ?t)" "\<not> has_masterBall (has ?t)"
    "\<not> has_logoReverse (has ?t)" "\<not> has_ballHolo (has ?t)" "\<not> has_mix (has ?t)"
    "\<not> has_ar (has ?t)" "\<not> has_chr (has ?t)" "\<not> has_sr (has ?t)" "\<not> has_hr (has ?t)"
    "\<not> has_japanese (has ?t)" "\<not> has_rrr (has ?t)" "\<not> has_rr (has ?t)"
    by (simp_all add: title_eval)
  then show ?thesis
    by (simp add: classify_normalized [OF n] rules_def)
qed

lemma lot_1:
  "parseLotCountFromTitle (js ''RR Only pack'') = Fin 1"
  "parseLotCountFromTitle (js ''mystery bundle'') = Fin 1"
  by (simp_all add: lot_eval)

lemma row_amounts:
  "payoutCny row_a = Fin 500" "payoutCny row_b = Fin 0" "payoutCny row_c = Fin 150"
  "gmvUsd row_a = Fin 80" "gmvUsd row_b = Fin 12" "gmvUsd row_c = Fin 30"
  by (simp_all add: row_a_def row_b_def row_c_def)

lemma row_dates:
  "paidAt row_a = Some 1704067200000" "paidAt row_b = Some 1704153600000"
  "paidAt row_c = Some 1704240000000" "payoutAt row_a = Some 1706745600000"
  "payoutAt row_b = None" "payoutAt row_c = Some 1709251200000"
  by (simp_all add: row_a_def row_b_def row_c_def)

lemma row_profits:
  "profitOf H COST_DEFAULTS Map.empty row_a = Fin 430"
  "profitOf H COST_DEFAULTS Map.empty row_b = Fin 0"
  "profitOf H COST_DEFAULTS Map.empty row_c = Fin 150"
  "totalCostOf H COST_DEFAULTS Map.empty row_a = Fin 70"
  "totalCostOf H COST_DEFAULTS Map.empty row_c = Fin 0"
  by (simp_all add: profitOf_def totalCostOf_def costPerLotForRow_def costPerLotOfGroup_def
      lotCountOf_def row_a_def row_b_def row_c_def classify_row_a classify_row_b classify_row_c
      lot_100 lot_1 COST_DEFAULTS_def COST_DEFAULTS_list_def jssub_def)

lemmas date_eval =
  parseYmd_def endOfDay_def utcHost_def utc_newDate_def utc_civil_def days_from_civil_def
  days_of_march_year_def civil_from_days_def civil_of_doe_def civil_of_yoe_def civil_of_doy_def
  civil_of_month_def field_def trunc_def full_year_def MakeDay_def MakeTime_def TimeClip_def
  number_defs char_class_defs js_def jssub_def

text \<open>
  Three states of the date filters: the first two differ in the payout range only, the
  last two in the paid range only.
\<close>

lemma rows_of_ranges:
  "paidRows utcHost [row_a, row_b, row_c]
     \<lparr>paidStartYmd = js ''2024-01-02'', paidEndYmd = js ''2024-01-03'',
      payoutStartYmd = ps, payoutEndYmd = pe\<rparr> = Inr [row_b, row_c]"
  "paidRows utcHost [row_a, row_b, row_c]
     \<lparr>paidStartYmd = [], paidEndYmd = [], payoutStartYmd = ps, payoutEndYmd = pe\<rparr> =
     Inr [row_a, row_b, row_c]"
  "payoutRows utcHost [row_a, row_b, row_c]
     \<lparr>paidStartYmd = s, paidEndYmd = e, payoutStartYmd = [], payoutEndYmd = []\<rparr> =
     Inr [row_a, row_b, row_c]"
  "payoutRows utcHost [row_a, row_b, row_c]
     \<lparr>paidStartYmd = s, paidEndYmd = e,
      payoutStartYmd = js ''2024-02-01'', payoutEndYmd = js ''2024-02-29''\<rparr> = Inr [row_a]"
  by (simp_all add: paidRows_def payoutRows_def filterByDate_def row_dates date_eval)

lemma kpi_of_ranges:
  "page_kpi utcHost COST_DEFAULTS Map.empty [row_a, row_b, row_c]
     \<lparr>paidStartYmd = js ''2024-01-02'', paidEndYmd = js ''2024-01-03'',
      payoutStartYmd = [], payoutEndYmd = []\<rparr> =
   Inr \<lparr>kpi_gmvUsd = Fin 42, kpi_payoutCny = Fin 650, kpi_totalCost = Fin 70,
     kpi_totalProfit = Fin 580\<rparr>"
  "page_kpi utcHost COST_DEFAULTS Map.empty [row_a, row_b, row_c]
     \<lparr>paidStartYmd = js ''2024-01-02'', paidEndYmd = js ''2024-01-03'',
      payoutStartYmd = js ''2024-02-01'', payoutEndYmd = js ''2024-02-29''\<rparr> =
   Inr \<lparr>kpi_gmvUsd = Fin 42, kpi_payoutCny = Fin 500, kpi_totalCost = Fin 70,
     kpi_totalProfit = Fin 430\<rparr>"
  "page_kpi utcHost COST_DEFAULTS Map.empty [row_a, row_b, row_c]
     \<lparr>paidStartYmd = [], paidEndYmd = [],
      payoutStartYmd = js ''2024-02-01'', payoutEndYmd = js ''2024-02-29''\<rparr> =
   Inr \<lparr>kpi_gmvUsd = Fin 122, kpi_payoutCny = Fin 500, kpi_totalCost = Fin 70,
     kpi_totalProfit = Fin 430\<rparr>"
  by (simp_all add: page_kpi_def rows_of_ranges kpi_of_def or0_def row_amounts row_profits)

lemma valid_end_examples:
  "valid_end utcHost []" "valid_end utcHost (js ''2024-01-03'')"
  "valid_end utcHost (js ''2024-02-29'')" "\<not> valid_end utcHost (js ''2024-02'')"
  by (simp_all add: valid_end_def parseYmd_def number_defs char_class_defs js_def)

theorem C6_date_ranges_independent_witness:
  "valid_end utcHost [] \<and> valid_end utcHost (js ''2024-01-03'') \<and>
   valid_end utcHost (js ''2024-02-29'') \<and>
   (\<exists>k1 k2.
      page_kpi utcHost COST_DEFAULTS Map.empty [row_a, row_b, row_c]
        \<lparr>paidStartYmd = js ''2024-01-02'', paidEndYmd = js ''2024-01-03'',
         payoutStartYmd = [], payoutEndYmd = []\<rparr> = Inr k1 \<and>
      page_kpi utcHost COST_DEFAULTS Map.empty [row_a, row_b, row_c]
        \<lparr>paidStartYmd = js ''2024-01-02'', paidEndYmd = js ''2024-01-03'',
         payoutStartYmd = js ''2024-02-01'', payoutEndYmd = js ''2024-02-29''\<rparr> = Inr k2 \<and>
      kpi_gmvUsd k1 = kpi_gmvUsd k2 \<and> kpi_gmvUsd k2 = Fin 42 \<and>
      kpi_payoutCny k1 = Fin 650 \<and> kpi_payoutCny k2 = Fin 500) \<and>
   (\<exists>k2 k3.
      page_kpi utcHost COST_DEFAULTS Map.empty [row_a, row_b, row_c]
        \<lparr>paidStartYmd = js ''2024-01-02'', paidEndYmd = js ''2024-01-03'',
         payoutStartYmd = js ''2024-02-01'', payoutEndYmd = js ''2024-02-29''\<rparr> = Inr k2 \<and>
      page_kpi utcHost COST_DEFAULTS Map.empty [row_a, row_b, row_c]
        \<lparr>paidStartYmd = [], paidEndYmd = [],
         payoutStartYmd = js ''2024-02-01'', payoutEndYmd = js ''2024-02-29''\<rparr> = Inr k3 \<and>
      kpi_payoutCny k2 = kpi_payoutCny k3 \<and> kpi_payoutCny k3 = Fin 500 \<and>
      kpi_totalProfit k2 = kpi_totalProfit k3 \<and> kpi_totalProfit k3 = Fin 430 \<and>
      kpi_gmvUsd k2 = Fin 42 \<and> kpi_gmvUsd k3 = Fin 122)"
proof -
  let ?rows = "[row_a, row_b, row_c]"
  let ?f1 = "\<lparr>paidStartYmd = js ''2024-01-02'', paidEndYmd = js ''2024-01-03'',
    payoutStartYmd = [], payoutEndYmd = []\<rparr>"
  let ?f2 = "\<lparr>paidStartYmd = js ''2024-01-02'', paidEndYmd = js ''2024-01-03'',
    payoutStartYmd = js ''2024-02-01'', payoutEndYmd = js ''2024-02-29''\<rparr>"
  let ?f3 = "\<lparr>paidStartYmd = [], paidEndYmd = [],
    payoutStartYmd = js ''2024-02-01'', payoutEndYmd = js ''2024-02-29''\<rparr>"
  note v = valid_end_examples(1-3)
  have "\<exists>k1 k2.
      page_kpi utcHost COST_DEFAULTS Map.empty ?rows ?f1 = Inr k1 \<and>
      page_kpi utcHost COST_DEFAULTS Map.empty ?rows ?f2 = Inr k2 \<and>
      kpi_gmvUsd k1 = kpi_gmvUsd k2"
    using C6_date_ranges_independent [of utcHost ?f1 ?f2 COST_DEFAULTS Map.empty ?rows] v
    by (simp only: filters.simps simp_thms) blast
  then obtain k1 k2 where
    one: "page_kpi utcHost COST_DEFAULTS Map.empty ?rows ?f1 = Inr k1"
      "page_kpi utcHost COST_DEFAULTS Map.empty ?rows ?f2 = Inr k2"
      "kpi_gmvUsd k1 = kpi_gmvUsd k2"
    by blast
  from one(1,2) have "kpi_gmvUsd k2 = Fin 42 \<and> kpi_payoutCny k1 = Fin 650 \<and>
      kpi_payoutCny k2 = Fin 500"
    unfolding kpi_of_ranges by auto
  with one have first: "\<exists>k1 k2.
      page_kpi utcHost COST_DEFAULTS Map.empty ?rows ?f1 = Inr k1 \<and>
      page_kpi utcHost COST_DEFAULTS Map.empty ?rows ?f2 = Inr k2 \<and>
      kpi_gmvUsd k1 = kpi_gmvUsd k2 \<and> kpi_gmvUsd k2 = Fin 42 \<and>
      kpi_payoutCny k1 = Fin 650 \<and> kpi_payoutCny k2 = Fin 500"
    by blast
  have "\<exists>k2 k3.
      page_kpi utcHost COST_DEFAULTS Map.empty ?rows ?f2 = Inr k2 \<and>
      page_kpi utcHost COST_DEFAULTS Map.empty ?rows ?f3 = Inr k3 \<and>
      kpi_payoutCny k2 = kpi_payoutCny k3 \<and> kpi_totalProfit k2 = kpi_totalProfit k3"
    using C6_date_ranges_independent [of utcHost ?f2 ?f3 COST_DEFAULTS Map.empty ?rows] v
    by (simp only: filters.simps simp_thms) blast
  then obtain k2' k3 where
    two: "page_kpi utcHost COST_DEFAULTS Map.empty ?rows ?f2 = Inr k2'"
      "page_kpi utcHost COST_DEFAULTS Map.empty ?rows ?f3 = Inr k3"
      "kpi_payoutCny k2' = kpi_payoutCny k3" "kpi_totalProfit k2' = kpi_totalProfit k3"
    by blast
  from two(1,2) have "kpi_payoutCny k3 = Fin 500 \<and> kpi_totalProfit k3 = Fin 430 \<and>
      kpi_gmvUsd k2' = Fin 42 \<and> kpi_gmvUsd k3 = Fin 122"
    unfolding kpi_of_ranges by auto
  with two have second: "\<exists>k2 k3.
      page_kpi utcHost COST_DEFAULTS Map.empty ?rows ?f2 = Inr k2 \<and>
      page_kpi utcHost COST_DEFAULTS Map.empty ?rows ?f3 = Inr k3 \<and>
      kpi_payoutCny k2 = kpi_payoutCny k3 \<and> kpi_payoutCny k3 = Fin 500 \<and>
      kpi_totalProfit k2 = kpi_totalProfit k3 \<and> kpi_totalProfit k3 = Fin 430 \<and>
      kpi_gmvUsd k2 = Fin 42 \<and> kpi_gmvUsd k3 = Fin 122"
    by blast
  from v first second show ?thesis
    by (intro conjI)
qed

section \<open>Loading the cost table: merged or replaced\<close>

text \<open>
  The second version of the page merges the stored document over the defaults: a category
  that the document does not hold keeps its default.
\<close>

lemma costMap_part000_keeps_default:
  "g \<notin> dom doc \<Longrightarrow> costMap_part000 defaults (Some doc) g = defaults g"
  by (simp add: costMap_part000_def map_add_def domIff)

text \<open>
  Claim C7: on load the stored document is merged over the table of defaults, so that a
  default category that the document does not hold keeps its default. The page of
  src/app/page.tsx replaces the table by the document instead: after loading a document
  that holds \<^verbatim>\<open>Mix\<close> only, the category \<^verbatim>\<open>OCD\<close> (default 14) has no entry and costs 0,
  where the merge of the second version of the page keeps 14.
\<close>

theorem C7_stored_document_replaces_defaults:
  "costMap (Some [js ''Mix'' \<mapsto> Fin 5]) (js ''OCD'') = None \<and>
   costPerLotOfGroup (costMap (Some [js ''Mix'' \<mapsto> Fin 5])) (js ''OCD'') = Fin 0 \<and>
   COST_DEFAULTS (js ''OCD'') = Some (Fin 14) \<and>
   costMap_part000 COST_DEFAULTS (Some [js ''Mix'' \<mapsto> Fin 5]) (js ''OCD'') = Some (Fin 14)"
proof -
  have d: "COST_DEFAULTS (js ''OCD'') = Some (Fin 14)"
    by (simp add: COST_DEFAULTS_def COST_DEFAULTS_list_def)
  have "js ''OCD'' \<notin> dom [js ''Mix'' \<mapsto> Fin 5]"
    by simp
  then have "costMap_part000 COST_DEFAULTS (Some [js ''Mix'' \<mapsto> Fin 5]) (js ''OCD'') =
      COST_DEFAULTS (js ''OCD'')"
    by (rule costMap_part000_keeps_default)
  with d have "costMap_part000 COST_DEFAULTS (Some [js ''Mix'' \<mapsto> Fin 5]) (js ''OCD'') =
      Some (Fin 14)"
    by simp
  then show ?thesis
    using d by (simp add: costMap_def useLocalStorageState_def costPerLotOfGroup_def)
qed

section \<open>Numbers of cells\<close>

text \<open>
  Claim C9: \<open>toNumber\<close> removes thousands separators and currency symbols before it
  parses, so that \<^verbatim>\<open>$1,234.5\<close> is 1234.5. \<open>toNumber\<close> of src/app/page.tsx removes the
  commas only: \<^verbatim>\<open>Number("$1234.5")\<close> is \<^verbatim>\<open>NaN\<close>, and the cell counts 0. The second
  version of the page, which removes every character that is not a digit, a point or a
  minus sign, reads 1234.5.
\<close>

theorem C9_currency_symbol_reads_zero:
  "toNumber (RStr (js ''$1,234.5'')) = Fin 0 \<and>
   toNumber_part000 (RStr (js ''$1,234.5'')) = Fin (2469 / 2)"
  by (simp add: toNumber_def toNumber_text_def toNumber_part000_def toNumber_text_part000_def
      number_defs char_class_defs js_def)

section \<open>Median and percentile: the rank\<close>

subsection \<open>The rounding on examples\<close>

lemmas double_eval = round_double_def round_mag_def round_at_def round_even_def ties_even_def
  ulp_def binade_def pow2_def overflow_def bit_length.simps

lemmas report_eval = percentile_def percentile_of_def median_def median_of_def last_index_def
  Math_max_def Math_min_def nearest_rank_def

text \<open>The doubles that the literals 0.1, 0.2, 0.9, 0.95 and 0.57 denote.\<close>

lemma double_literals:
  "round_double (1 / 10) = Fin (3602879701896397 / 36028797018963968)"
  "round_double (1 / 5) = Fin (3602879701896397 / 18014398509481984)"
  "round_double (9 / 10) = Fin (8106479329266893 / 9007199254740992)"
  "round_double (19 / 20) = Fin (4278419646001971 / 4503599627370496)"
  "round_double (57 / 100) = Fin (5134103575202365 / 9007199254740992)"
  by (simp_all add: double_eval)

text \<open>
  \<^verbatim>\<open>3 * 0.9\<close> is a double below 2.7 and \<^verbatim>\<open>20 * 0.95\<close> is 19, although the double of 0.95 is
  less than 0.95; \<^verbatim>\<open>100 * 0.57\<close> is a double below 57.
\<close>

lemma double_products:
  "fmul (Fin 3) (Fin (8106479329266893 / 9007199254740992)) =
     Fin (3039929748475085 / 1125899906842624)"
  "fmul (Fin 20) (Fin (4278419646001971 / 4503599627370496)) = Fin 19"
  "fmul (Fin 100) (Fin (5134103575202365 / 9007199254740992)) =
     Fin (8022036836253695 / 140737488355328)"
  by (simp_all add: double_eval)

text \<open>The median of 0.1 and 0.2 is the double \<^verbatim>\<open>0.15000000000000002\<close>.\<close>

lemma median_rounds:
  "median [3602879701896397 / 36028797018963968, 3602879701896397 / 18014398509481984] =
     Fin (1351079888211149 / 9007199254740992)"
  by (simp add: report_eval double_eval)

subsection \<open>The rounded product of a factor from 0 to 1\<close>

text \<open>
  A value \<open>x\<close> from 0 to a natural number \<open>m < 2^32\<close> is rounded to a double from 0
  to \<open>m\<close>: below \<open>2^53\<close> the doubles are the multiples of \<open>1 / 2^k\<close> of their
  binade, and \<open>m\<close> is one of them.
\<close>

lemma bit_length_le: "n < 2 ^ k \<Longrightarrow> bit_length n \<le> k"
proof (induction k arbitrary: n)
  case 0
  then show ?case
    by (simp add: bit_length.simps)
next
  case (Suc k)
  show ?case
  proof (cases "n = 0")
    case True
    then show ?thesis
      by (simp add: bit_length.simps)
  next
    case False
    from Suc.prems have "n div 2 < 2 ^ k"
      by simp
    then have "bit_length (n div 2) \<le> k"
      by (rule Suc.IH)
    with False show ?thesis
      by (simp add: bit_length.simps [of n])
  qed
qed

lemma binade_le:
  assumes "0 < x" and "x < 2 ^ 53"
  shows "binade x \<le> 52"
proof (cases "1 \<le> x")
  case True
  from assms(2) have "\<lfloor>x\<rfloor> < 2 ^ 53"
    by (simp add: floor_less_iff)
  moreover from True have "0 \<le> \<lfloor>x\<rfloor>"
    by simp
  ultimately have "nat \<lfloor>x\<rfloor> < 2 ^ 53"
    by (simp add: nat_less_iff)
  then have "bit_length (nat \<lfloor>x\<rfloor>) \<le> 53"
    by (rule bit_length_le)
  with True show ?thesis
    by (simp add: binade_def)
next
  case False
  then show ?thesis
    by (simp add: binade_def)
qed

lemma ulp_small:
  assumes "0 < x" and "x < 2 ^ 53"
  shows "\<exists>k :: nat. ulp x = 1 / 2 ^ k"
proof -
  let ?e = "max (binade x) (- 1022) - 52"
  from assms have "?e \<le> 0"
    using binade_le [of x] by simp
  then have "pow2 ?e = 1 / 2 ^ nat (- ?e)"
    by (cases "?e = 0") (simp_all add: pow2_def)
  then show ?thesis
    unfolding ulp_def by blast
qed

lemma round_even_ge: "\<lfloor>y\<rfloor> \<le> round_even y"
  by (simp add: round_even_def ties_even_def)

lemma round_even_le: "round_even y \<le> \<lceil>y\<rceil>"
proof (cases "of_int \<lfloor>y\<rfloor> = y")
  case True
  then have "y - of_int \<lfloor>y\<rfloor> = 0"
    by linarith
  then have "round_even y = \<lfloor>y\<rfloor>"
    by (simp add: round_even_def ties_even_def)
  then show ?thesis
    by (simp add: floor_le_ceiling)
next
  case False
  then have "\<lceil>y\<rceil> = \<lfloor>y\<rfloor> + 1"
    by (metis ceiling_altdef)
  then show ?thesis
    by (simp add: round_even_def ties_even_def)
qed

lemma round_mag_bounds:
  assumes "0 < x" and "x \<le> of_nat m" and "x < 2 ^ 53"
  shows "0 \<le> round_mag x \<and> round_mag x \<le> of_nat m"
proof -
  from assms(1,3) obtain k :: nat where q: "ulp x = 1 / 2 ^ k"
    using ulp_small by blast
  have r: "round_mag x = of_int (round_even (x * 2 ^ k)) / 2 ^ k"
    by (simp add: round_mag_def round_at_def q)
  from assms(1) have "0 \<le> x * 2 ^ k"
    by simp
  then have "0 \<le> \<lfloor>x * 2 ^ k\<rfloor>"
    by simp
  then have lo: "0 \<le> round_even (x * 2 ^ k)"
    using round_even_ge [of "x * 2 ^ k"] by linarith
  from assms(2) have "x * 2 ^ k \<le> of_nat m * 2 ^ k"
    by simp
  also have "\<dots> = of_int (int m * 2 ^ k)"
    by simp
  finally have "\<lceil>x * 2 ^ k\<rceil> \<le> int m * 2 ^ k"
    by (simp only: ceiling_le_iff)
  then have "round_even (x * 2 ^ k) \<le> int m * 2 ^ k"
    using round_even_le [of "x * 2 ^ k"] by linarith
  then have "(of_int (round_even (x * 2 ^ k)) :: rat) \<le> of_int (int m * 2 ^ k)"
    by (simp only: of_int_le_iff)
  then have hi: "(of_int (round_even (x * 2 ^ k)) :: rat) \<le> of_nat m * 2 ^ k"
    by simp
  from lo have "0 \<le> round_mag x"
    by (simp add: r)
  moreover from hi have "round_mag x \<le> of_nat m"
    by (simp add: r divide_le_eq)
  ultimately show ?thesis
    by simp
qed

lemma round_double_bounds:
  assumes "0 \<le> x" and "x \<le> of_nat m" and "m < 2 ^ 32"
  shows "\<exists>y. round_double x = Fin y \<and> 0 \<le> y \<and> y \<le> of_nat m"
proof (cases "x = 0")
  case True
  then show ?thesis
    by (simp add: round_double_def)
next
  case False
  with assms(1) have pos: "0 < x"
    by simp
  from assms(3) have "(of_nat m :: rat) < of_nat (2 ^ 32)"
    by (simp only: of_nat_less_iff)
  then have m32: "(of_nat m :: rat) < 2 ^ 32"
    by simp
  with assms(2) have "x < 2 ^ 53"
    by simp
  with pos assms(2) have b: "0 \<le> round_mag x \<and> round_mag x \<le> of_nat m"
    by (rule round_mag_bounds)
  with m32 have "round_mag x < 2 ^ 1024"
    by simp
  then have "overflow (round_mag x) = Fin (round_mag x)"
    by (simp add: overflow_def)
  with pos b show ?thesis
    by (simp add: round_double_def)
qed

lemma Math_max_zero: "0 \<le> k \<Longrightarrow> Math_max (Fin 0) (Fin k) = Fin k"
  by (auto simp add: Math_max_def)

lemma Math_min_last: "k \<le> m \<Longrightarrow> Math_min (Fin m) (Fin k) = Fin k"
  by (auto simp add: Math_min_def)

lemma percentile_of_index:
  assumes "a \<noteq> []" and "length a < 2 ^ 32" and "0 \<le> p" and "p \<le> 1"
  shows "\<exists>y. fmul (last_index a) (Fin p) = Fin y \<and> 0 \<le> y \<and> nat \<lfloor>y\<rfloor> < length a \<and>
    percentile_of a (Fin p) = Some (a ! nat \<lfloor>y\<rfloor>)"
proof -
  let ?n = "length a"
  from assms(1) have n: "0 < ?n"
    by simp
  then have m: "(of_nat ?n - 1 :: rat) = of_nat (?n - 1)"
    by (cases "?n") simp_all
  have x0: "0 \<le> of_nat (?n - 1) * p"
    using assms(3) by simp
  have "of_nat (?n - 1) * p \<le> of_nat (?n - 1) * 1"
    using assms(4) by (intro mult_left_mono) simp_all
  then have x1: "of_nat (?n - 1) * p \<le> of_nat (?n - 1)"
    by simp
  from assms(2) have "?n - 1 < 2 ^ 32"
    by simp
  with x0 x1 obtain y where y: "round_double (of_nat (?n - 1) * p) = Fin y"
      and y0: "0 \<le> y" and y1: "y \<le> of_nat (?n - 1)"
    using round_double_bounds by blast
  from y0 have k0: "0 \<le> \<lfloor>y\<rfloor>"
    by simp
  from y1 have "y \<le> of_int (int (?n - 1))"
    by simp
  then have k1: "\<lfloor>y\<rfloor> \<le> int (?n - 1)"
    by (metis floor_mono floor_of_int)
  from k0 k1 n have lt: "nat \<lfloor>y\<rfloor> < ?n"
    by linarith
  have f: "fmul (last_index a) (Fin p) = Fin y"
    by (simp only: last_index_def m fmul.simps y)
  from k0 have "(0 :: rat) \<le> of_int \<lfloor>y\<rfloor>"
    by (simp only: of_int_0_le_iff)
  then have mx: "Math_max (Fin 0) (Fin (of_int \<lfloor>y\<rfloor>)) = Fin (of_int \<lfloor>y\<rfloor>)"
    by (rule Math_max_zero)
  from k1 have "(of_int \<lfloor>y\<rfloor> :: rat) \<le> of_int (int (?n - 1))"
    by (simp only: of_int_le_iff)
  then have "(of_int \<lfloor>y\<rfloor> :: rat) \<le> of_nat (?n - 1)"
    by simp
  then have mn: "Math_min (Fin (of_nat (?n - 1))) (Fin (of_int \<lfloor>y\<rfloor>)) = Fin (of_int \<lfloor>y\<rfloor>)"
    by (rule Math_min_last)
  have "percentile_of a (Fin p) = elem a (Fin (of_int \<lfloor>y\<rfloor>))"
    by (simp only: percentile_of_def f Math_floor.simps mx) (simp only: last_index_def m mn)
  also from k0 lt have "\<dots> = Some (a ! nat \<lfloor>y\<rfloor>)"
    by simp
  finally show ?thesis
    using f y0 lt by blast
qed

subsection \<open>The claim\<close>

lemma C8_values:
  "percentile [1, 2, 3, 4] (Fin (8106479329266893 / 9007199254740992)) = Some 3"
  "nearest_rank [1, 2, 3, 4] (9 / 10) = 4"
  "nearest_rank [1, 2, 3, 4] (8106479329266893 / 9007199254740992) = 4"
  by (simp_all add: report_eval double_eval)

text \<open>
  Claim C8, as stated: for a list that is not empty and \<open>p\<close> from 0 to 1, \<open>percentile\<close> is
  the nearest-rank percentile. Of the four values 1, 2, 3, 4 the nearest-rank percentile
  for \<open>p = 0.9\<close> is the value of rank \<open>\<lceil>3.6\<rceil> = 4\<close>, which is 4, for the number 0.9 as for
  the double that the literal denotes; \<open>percentile\<close> reads the index \<open>\<lfloor>3 \<cdot> 0.9\<rfloor> = 2\<close>, where
  3 stands.
\<close>

theorem C8_not_nearest_rank:
  "percentile [1, 2, 3, 4] (round_double (9 / 10)) \<noteq> Some (nearest_rank [1, 2, 3, 4] (9 / 10)) \<and>
   percentile [1, 2, 3, 4] (Fin (8106479329266893 / 9007199254740992)) \<noteq>
     Some (nearest_rank [1, 2, 3, 4] (8106479329266893 / 9007199254740992))"
  by (simp add: double_literals C8_values)

text \<open>
  Claim C8, amended: for a list of \<open>n > 0\<close> finite numbers (\<open>n < 2^32\<close>, as in every
  array) and a double \<open>p\<close> from 0 to 1, the product \<open>(n - 1) \<cdot> p\<close>, rounded to the nearest
  double, is a finite number \<open>y\<close> from 0 to \<open>n - 1\<close>, and \<open>percentile\<close> is the value at the
  index \<open>\<lfloor>y\<rfloor>\<close>, counted from 0, of the ascending list, a value of the list (the rank
  is rounded down from the rounded product, not up to the nearest rank). \<open>median\<close> is the
  middle value when \<open>n\<close> is odd; when \<open>n\<close> is even it is the half of the sum of the two
  middle values as the doubles compute it: the sum is rounded, and so is its half, and
  an infinity remains one.
\<close>

theorem C8_percentile_median:
  assumes "arr \<noteq> []" and "length arr < 2 ^ 32" and "0 \<le> p" and "p \<le> 1"
  shows "(\<exists>y. fmul (Fin (of_nat (length arr) - 1)) (Fin p) = Fin y \<and> 0 \<le> y \<and>
      nat \<lfloor>y\<rfloor> < length arr \<and>
      percentile arr (Fin p) = Some (sort arr ! nat \<lfloor>y\<rfloor>) \<and>
      sort arr ! nat \<lfloor>y\<rfloor> \<in> set arr) \<and>
    median arr =
      (if odd (length arr) then Fin (sort arr ! (length arr div 2))
       else fhalf (fadd (Fin (sort arr ! (length arr div 2 - 1)))
         (Fin (sort arr ! (length arr div 2)))))"
proof -
  from assms(1) have s: "sort arr \<noteq> []"
    by (metis length_0_conv length_sort)
  from assms(2) have "length (sort arr) < 2 ^ 32"
    by simp
  with s obtain y where f: "fmul (last_index (sort arr)) (Fin p) = Fin y" and y0: "0 \<le> y"
      and lt: "nat \<lfloor>y\<rfloor> < length (sort arr)"
      and pc: "percentile_of (sort arr) (Fin p) = Some (sort arr ! nat \<lfloor>y\<rfloor>)"
    using percentile_of_index [OF _ _ assms(3,4)] by blast
  from lt have "sort arr ! nat \<lfloor>y\<rfloor> \<in> set (sort arr)"
    by (rule nth_mem)
  then have mem: "sort arr ! nat \<lfloor>y\<rfloor> \<in> set arr"
    by simp
  from f have f': "fmul (Fin (of_nat (length arr) - 1)) (Fin p) = Fin y"
    by (simp add: last_index_def)
  from pc assms(1) have "percentile arr (Fin p) = Some (sort arr ! nat \<lfloor>y\<rfloor>)"
    by (simp add: percentile_def)
  with f' y0 lt mem
  have 1: "\<exists>y. fmul (Fin (of_nat (length arr) - 1)) (Fin p) = Fin y \<and> 0 \<le> y \<and>
      nat \<lfloor>y\<rfloor> < length arr \<and>
      percentile arr (Fin p) = Some (sort arr ! nat \<lfloor>y\<rfloor>) \<and>
      sort arr ! nat \<lfloor>y\<rfloor> \<in> set arr"
    by auto
  have 2: "median arr =
      (if odd (length arr) then Fin (sort arr ! (length arr div 2))
       else fhalf (fadd (Fin (sort arr ! (length arr div 2 - 1)))
         (Fin (sort arr ! (length arr div 2)))))"
    using assms(1) by (simp add: median_def median_of_def even_iff_mod_2_eq_zero)
  from 1 2 show ?thesis
    by (rule conjI)
qed

theorem C8_percentile_median_witness:
  "[0, 1, 2, 3, 4, 5, 6, 7, 8, 9, 10, 11, 12, 13, 14, 15, 16, 17, 18, 19, 20 :: rat] \<noteq> [] \<and>
   length [0, 1, 2, 3, 4, 5, 6, 7, 8, 9, 10, 11, 12, 13, 14, 15, 16, 17, 18, 19, 20 :: rat]
     < 2 ^ 32 \<and>
   (0 :: rat) \<le> 4278419646001971 / 4503599627370496 \<and>
   (4278419646001971 / 4503599627370496 :: rat) \<le> 1 \<and>
   percentile [0, 1, 2, 3, 4, 5, 6, 7, 8, 9, 10, 11, 12, 13, 14, 15, 16, 17, 18, 19, 20]
     (Fin (4278419646001971 / 4503599627370496)) = Some 19 \<and>
   median [0, 1, 2, 3, 4, 5, 6, 7, 8, 9, 10, 11, 12, 13, 14, 15, 16, 17, 18, 19, 20] = Fin 10"
  using C8_percentile_median
    [of "[0, 1, 2, 3, 4, 5, 6, 7, 8, 9, 10, 11, 12, 13, 14, 15, 16, 17, 18, 19, 20]"
      "4278419646001971 / 4503599627370496"]
  by (simp add: report_eval double_eval)

end
